theory Spec2Isabelle
  imports Main "HOL-Library.Multiset"
begin

section \<open>Python values\<close>

text \<open>
  The logger is dynamically typed: option bags, snapshots of Discord objects and log
  messages hold arbitrary values. \<open>PObj key shown repr attrs\<close> is an instance of a
  class defined outside the module (a Discord model object, a datetime, an exception):
  \<open>key\<close> decides \<open>==\<close> and the hash, \<open>shown\<close> and \<open>repr\<close> are what \<open>str()\<close> and
  \<open>repr()\<close> return for it, and \<open>attrs\<close> are its attributes. Strings are ASCII.
\<close>

datatype pyval =
    PNone
  | PBool bool
  | PInt int
  | PStr string
  | PList "pyval list"
  | PObj nat string string "(string \<times> pyval) list"

text \<open>
  An exception is its class and its message. The message is \<open>None\<close> where the
  interpreter or a library words it (a failed attribute read, \<open>len\<close> of a number,
  a rejected send).
\<close>

datatype exn_class = ValueError | AttributeError | TypeError | Forbidden | HTTPException

datatype exn = Exn exn_class "string option"

fun exn_cls :: "exn \<Rightarrow> exn_class" where
  "exn_cls (Exn c _) = c"

text \<open>\<open>bool(v)\<close>: what \<open>if v\<close> and \<open>not v\<close> test.\<close>

fun truthy :: "pyval \<Rightarrow> bool" where
  "truthy PNone = False"
| "truthy (PBool b) = b"
| "truthy (PInt n) = (n \<noteq> 0)"
| "truthy (PStr s) = (s \<noteq> [])"
| "truthy (PList xs) = (xs \<noteq> [])"
| "truthy (PObj _ _ _ _) = True"

text \<open>\<open>a == b\<close>. A bool is the integer 0 or 1; objects compare by their key.\<close>

fun py_eq :: "pyval \<Rightarrow> pyval \<Rightarrow> bool" where
  "py_eq PNone PNone = True"
| "py_eq (PBool a) (PBool b) = (a = b)"
| "py_eq (PBool a) (PInt b) = ((if a then 1 else 0) = b)"
| "py_eq (PInt a) (PBool b) = (a = (if b then 1 else 0))"
| "py_eq (PInt a) (PInt b) = (a = b)"
| "py_eq (PStr a) (PStr b) = (a = b)"
| "py_eq (PList xs) (PList ys) = list_all2 py_eq xs ys"
| "py_eq (PObj i _ _ _) (PObj j _ _ _) = (i = j)"
| "py_eq _ _ = False"

text \<open>
  \<open>obj.name\<close> and \<open>getattr(obj, name, default)\<close>. Only the attributes of \<open>PObj\<close>
  are modelled: the names this module reads (\<open>channel\<close>, \<open>guild\<close>, \<open>id\<close>, \<open>name\<close>,
  \<open>content\<close>, \<open>author\<close>, \<open>emoji\<close>, \<open>mention\<close>, \<open>owner\<close>, \<open>__traceback__\<close>) are
  attributes of no built-in value.
\<close>

fun py_getattr :: "pyval \<Rightarrow> string \<Rightarrow> exn + pyval" where
  "py_getattr (PObj _ _ _ attrs) name =
     (case map_of attrs name of
        Some v \<Rightarrow> Inr v
      | None \<Rightarrow> Inl (Exn AttributeError None))"
| "py_getattr _ name = Inl (Exn AttributeError None)"

definition getattr_default :: "pyval \<Rightarrow> string \<Rightarrow> pyval \<Rightarrow> pyval" where
  "getattr_default obj name dflt =
     (case py_getattr obj name of Inr v \<Rightarrow> v | Inl _ \<Rightarrow> dflt)"

subsection \<open>Strings\<close>

definition lower_char :: "char \<Rightarrow> char" where
  "lower_char c =
     (case map_of (zip ''ABCDEFGHIJKLMNOPQRSTUVWXYZ'' ''abcdefghijklmnopqrstuvwxyz'') c of
        Some d \<Rightarrow> d
      | None \<Rightarrow> c)"

definition upper_char :: "char \<Rightarrow> char" where
  "upper_char c =
     (case map_of (zip ''abcdefghijklmnopqrstuvwxyz'' ''ABCDEFGHIJKLMNOPQRSTUVWXYZ'') c of
        Some d \<Rightarrow> d
      | None \<Rightarrow> c)"

definition py_lower :: "string \<Rightarrow> string" where
  "py_lower s = map lower_char s"

definition py_upper :: "string \<Rightarrow> string" where
  "py_upper s = map upper_char s"

text \<open>\<open>sep.join(parts)\<close> on strings.\<close>

fun join :: "string \<Rightarrow> string list \<Rightarrow> string" where
  "join sep [] = []"
| "join sep [x] = x"
| "join sep (x # y # ys) = x @ sep @ join sep (y # ys)"

text \<open>Decimal digits of a natural number, and \<open>str\<close> of an integer.\<close>

fun digits :: "nat \<Rightarrow> string" where
  "digits n =
     (if n < 10 then [''0123456789'' ! n]
      else digits (n div 10) @ [''0123456789'' ! (n mod 10)])"

definition str_int :: "int \<Rightarrow> string" where
  "str_int i = (if i < 0 then CHR ''-'' # digits (nat (- i)) else digits (nat i))"

text \<open>
  \<open>repr\<close> of a string: single quotes, or double quotes when the string holds a single
  quote and no double quote; the quote in use and the backslash are escaped, control
  characters are written \<open>\t\<close>, \<open>\n\<close>, \<open>\r\<close> or \<open>\xNN\<close>.
\<close>

definition hex2 :: "nat \<Rightarrow> string" where
  "hex2 n = [''0123456789abcdef'' ! (n div 16), ''0123456789abcdef'' ! (n mod 16)]"

definition repr_char :: "char \<Rightarrow> char \<Rightarrow> string" where
  "repr_char q c =
     (if c = q \<or> c = CHR 0x5C then [CHR 0x5C, c]
      else if c = CHR 0x09 then [CHR 0x5C, CHR ''t'']
      else if c = CHR 0x0A then [CHR 0x5C, CHR ''n'']
      else if c = CHR 0x0D then [CHR 0x5C, CHR ''r'']
      else if (of_char c :: nat) < 32 \<or> (of_char c :: nat) = 127
        then [CHR 0x5C, CHR ''x''] @ hex2 (of_char c)
      else [c])"

definition repr_str :: "string \<Rightarrow> string" where
  "repr_str s =
     (let q = (if CHR 0x27 \<in> set s \<and> CHR 0x22 \<notin> set s then CHR 0x22 else CHR 0x27)
      in q # concat (map (repr_char q) s) @ [q])"

fun py_repr :: "pyval \<Rightarrow> string" where
  "py_repr PNone = ''None''"
| "py_repr (PBool b) = (if b then ''True'' else ''False'')"
| "py_repr (PInt i) = str_int i"
| "py_repr (PStr s) = repr_str s"
| "py_repr (PList xs) = ''['' @ join '', '' (map py_repr xs) @ '']''"
| "py_repr (PObj _ _ r _) = r"

text \<open>\<open>str(v)\<close>, which is also what an f-string writes for \<open>{v}\<close>.\<close>

definition py_str :: "pyval \<Rightarrow> string" where
  "py_str v = (case v of PStr s \<Rightarrow> s | PObj _ shown _ _ \<Rightarrow> shown | _ \<Rightarrow> py_repr v)"

text \<open>
  \<open>int(v)\<close>. A string is stripped of surrounding white space, may carry a sign, and is
  made of decimal digits with single underscores between them. Objects that convert
  themselves (\<open>__int__\<close>) are not modelled.
\<close>

definition is_space :: "char \<Rightarrow> bool" where
  "is_space c =
     (c \<in> set [CHR 0x09, CHR 0x0A, CHR 0x0B, CHR 0x0C, CHR 0x0D, CHR 0x20])"

definition strip :: "string \<Rightarrow> string" where
  "strip s = rev (dropWhile is_space (rev (dropWhile is_space s)))"

definition digit_val :: "char \<Rightarrow> nat option" where
  "digit_val c = map_of (zip ''0123456789'' [0, 1, 2, 3, 4, 5, 6, 7, 8, 9]) c"

fun parse_digits :: "string \<Rightarrow> nat \<Rightarrow> nat option" where
  "parse_digits [] acc = Some acc"
| "parse_digits (c # cs) acc =
     (case digit_val c of
        Some d \<Rightarrow> parse_digits cs (10 * acc + d)
      | None \<Rightarrow>
          (if c = CHR ''_''
           then (case cs of
                   [] \<Rightarrow> None
                 | d # _ \<Rightarrow> (case digit_val d of
                                None \<Rightarrow> None
                              | Some _ \<Rightarrow> parse_digits cs acc))
           else None))"

definition parse_int :: "string \<Rightarrow> int option" where
  "parse_int s =
     (let t = strip s;
          neg = (case t of [] \<Rightarrow> False | c # _ \<Rightarrow> c = CHR ''-'');
          body = (case t of
                    [] \<Rightarrow> []
                  | c # r \<Rightarrow> if c = CHR ''-'' \<or> c = CHR ''+'' then r else t)
      in case body of
           [] \<Rightarrow> None
         | c # _ \<Rightarrow>
             (case digit_val c of
                None \<Rightarrow> None
              | Some _ \<Rightarrow>
                  map_option (\<lambda>n. if neg then - int n else int n) (parse_digits body 0)))"

fun py_int :: "pyval \<Rightarrow> exn + int" where
  "py_int (PInt n) = Inr n"
| "py_int (PBool b) = Inr (if b then 1 else 0)"
| "py_int (PStr s) =
     (case parse_int s of
        Some i \<Rightarrow> Inr i
      | None \<Rightarrow> Inl (Exn ValueError None))"
| "py_int _ = Inl (Exn TypeError None)"

text \<open>\<open>len(v)\<close>: defined on strings and lists, a \<open>TypeError\<close> elsewhere.\<close>

fun py_len :: "pyval \<Rightarrow> exn + nat" where
  "py_len (PStr s) = Inr (length s)"
| "py_len (PList xs) = Inr (length xs)"
| "py_len _ = Inl (Exn TypeError None)"

text \<open>\<open>for x in v\<close>: the items of a list, the one-character strings of a string.\<close>

fun py_iter :: "pyval \<Rightarrow> exn + pyval list" where
  "py_iter (PList xs) = Inr xs"
| "py_iter (PStr s) = Inr (map (\<lambda>c. PStr [c]) s)"
| "py_iter _ = Inl (Exn TypeError None)"

subsection \<open>Sets\<close>

text \<open>
  A set is held as the list of its members, no two of them equal. A list cannot be a
  member (it has no hash). \<open>set_add\<close> keeps the member already there, as \<open>set.add\<close>
  does. The order in which the interpreter iterates over a set is not fixed by the
  language; it is a parameter of the functions that iterate.
\<close>

fun hashable :: "pyval \<Rightarrow> bool" where
  "hashable (PList _) = False"
| "hashable _ = True"

definition py_member :: "pyval \<Rightarrow> pyval list \<Rightarrow> bool" where
  "py_member x xs = list_ex (py_eq x) xs"

definition set_add :: "pyval list \<Rightarrow> pyval \<Rightarrow> pyval list" where
  "set_add s x = (if py_member x s then s else s @ [x])"

text \<open>\<open>set(v)\<close>.\<close>

definition py_set :: "pyval \<Rightarrow> exn + pyval list" where
  "py_set v =
     (case py_iter v of
        Inl e \<Rightarrow> Inl e
      | Inr xs \<Rightarrow>
          if list_all hashable xs then Inr (foldl set_add [] xs)
          else Inl (Exn TypeError None))"

text \<open>\<open>a ^ b\<close>: the members of exactly one of the two sets.\<close>

definition set_sym_diff :: "pyval list \<Rightarrow> pyval list \<Rightarrow> pyval list" where
  "set_sym_diff a b =
     filter (\<lambda>x. \<not> py_member x b) a @ filter (\<lambda>y. \<not> py_member y a) b"

section \<open>Log embeds (embed.py)\<close>

text \<open>The five colours are constants of the Discord library.\<close>

datatype color = Green | DarkGreen | Gold | Red | Blurple

record embed =
  title :: string
  description :: pyval
  color :: color
  timestamp :: "pyval option"
  embed_fields :: "(string \<times> pyval) list"

text \<open>
  \<open>LogEmbed.__init__\<close>: the subclass's \<open>title\<close>, uppercased, its \<open>color\<close>, and the
  message as description; no timestamp and no field yet.
\<close>

definition LogEmbed :: "string \<Rightarrow> color \<Rightarrow> pyval \<Rightarrow> embed" where
  "LogEmbed cls_title cls_color message =
     \<lparr>title = py_upper cls_title, description = message, color = cls_color,
      timestamp = None, embed_fields = []\<rparr>"

definition InfoEmbed :: "pyval \<Rightarrow> embed" where
  "InfoEmbed = LogEmbed ''info'' Green"

definition DebugEmbed :: "pyval \<Rightarrow> embed" where
  "DebugEmbed = LogEmbed ''debug'' DarkGreen"

definition WarningEmbed :: "pyval \<Rightarrow> embed" where
  "WarningEmbed = LogEmbed ''warning'' Gold"

definition ErrorEmbed :: "pyval \<Rightarrow> embed" where
  "ErrorEmbed = LogEmbed ''error'' Red"

definition EventEmbed :: "pyval \<Rightarrow> embed" where
  "EventEmbed = LogEmbed ''event'' Blurple"

definition generate_log_embed :: "pyval \<Rightarrow> string \<Rightarrow> exn + embed" where
  "generate_log_embed message level =
     (let lvl = py_lower level in
      if lvl = ''info'' then Inr (InfoEmbed message)
      else if lvl = ''debug'' then Inr (DebugEmbed message)
      else if lvl = ''warning'' then Inr (WarningEmbed message)
      else if lvl = ''error'' then Inr (ErrorEmbed message)
      else if lvl = ''event'' then Inr (EventEmbed message)
      else Inl (Exn ValueError (Some ''invalid log level provided'')))"

text \<open>\<open>embed.add_field(name=..., value=...)\<close> appends a field.\<close>

definition add_field :: "string \<Rightarrow> pyval \<Rightarrow> embed \<Rightarrow> embed" where
  "add_field name v e = e\<lparr>embed_fields := embed_fields e @ [(name, v)]\<rparr>"

text \<open>The five levels and the colour table of the embed classes.\<close>

definition level_names :: "string list" where
  "level_names = [''info'', ''debug'', ''warning'', ''error'', ''event'']"

fun level_color :: "string \<Rightarrow> color" where
  "level_color lvl =
     (if lvl = ''info'' then Green
      else if lvl = ''debug'' then DarkGreen
      else if lvl = ''warning'' then Gold
      else if lvl = ''error'' then Red
      else Blurple)"

section \<open>The logger (logger.py)\<close>

text \<open>
  A keyword option bag (\<open>**kwargs\<close>). Python rejects, at the call of a public method,
  a bag that names one of the method's own parameters, so no bag holds \<open>self\<close>.
\<close>

type_synonym kwargs = "string \<rightharpoonup> pyval"

text \<open>\<open>kwargs.get(key, default)\<close>.\<close>

definition kw_get :: "kwargs \<Rightarrow> string \<Rightarrow> pyval \<Rightarrow> pyval" where
  "kw_get kwargs key dflt = (case kwargs key of Some v \<Rightarrow> v | None \<Rightarrow> dflt)"

text \<open>The steps of a function body that may raise, in sequence.\<close>

definition and_then :: "exn + 'a \<Rightarrow> ('a \<Rightarrow> exn + 'b) \<Rightarrow> exn + 'b" where
  "and_then m f = (case m of Inl e \<Rightarrow> Inl e | Inr x \<Rightarrow> f x)"

subsection \<open>The diff of two snapshots\<close>

text \<open>
  A diff is a dict from attribute name to the pair of values, in insertion order.
  \<open>munchify\<close> only rewraps dicts, and no value here is one. \<open>dict_set\<close> is
  \<open>d[k] = v\<close>: a key already there keeps its place.
\<close>

type_synonym diff = "(string \<times> pyval \<times> pyval) list"

fun dict_set :: "('k \<times> 'v) list \<Rightarrow> 'k \<Rightarrow> 'v \<Rightarrow> ('k \<times> 'v) list" where
  "dict_set [] k v = [(k, v)]"
| "dict_set ((k', v') # d) k v =
     (if k' = k then (k, v) # d else (k', v') # dict_set d k v)"

fun get_object_diff_loop :: "pyval \<Rightarrow> pyval \<Rightarrow> string list \<Rightarrow> diff \<Rightarrow> diff" where
  "get_object_diff_loop before after [] result = result"
| "get_object_diff_loop before after (attr # attrs) result =
     (let after_value = getattr_default after attr PNone in
      if \<not> truthy after_value then get_object_diff_loop before after attrs result
      else
        let before_value = getattr_default before attr PNone in
        if \<not> truthy before_value then get_object_diff_loop before after attrs result
        else if \<not> py_eq before_value after_value
          then get_object_diff_loop before after attrs
                 (dict_set result attr (before_value, after_value))
        else get_object_diff_loop before after attrs result)"

definition get_object_diff :: "pyval \<Rightarrow> pyval \<Rightarrow> string list \<Rightarrow> diff" where
  "get_object_diff before after attrs_to_check =
     get_object_diff_loop before after attrs_to_check []"

text \<open>
  \<open>add_diff_fields\<close>; \<open>order\<close> is the interpreter's iteration order of a set, given
  its members.
\<close>

fun add_diff_fields :: "(pyval list \<Rightarrow> pyval list) \<Rightarrow> embed \<Rightarrow> diff \<Rightarrow> exn + embed" where
  "add_diff_fields order e [] = Inr e"
| "add_diff_fields order e ((attr, before, after) # rest) =
     (let attru = py_upper attr in
      case before of
        PList bs \<Rightarrow>
          and_then (py_len after) (\<lambda>n.
            let action = (if length bs < n then ''added'' else ''removed'') in
            and_then (py_set after) (\<lambda>sa.
            and_then (py_set before) (\<lambda>sb.
              let list_diff = order (set_sym_diff sa sb) in
              add_diff_fields order
                (add_field (attru @ '' '' @ action)
                   (PStr (join '','' (map py_str list_diff))) e)
                rest)))
      | _ \<Rightarrow>
          add_diff_fields order
            (add_field (attru @ '' (after)'') after
               (add_field (attru @ '' (before)'') before e))
            rest)"

subsection \<open>State and collaborators\<close>

text \<open>
  What a delivery carries: \<open>target.send(content=..., embed=...)\<close>.
\<close>

record outgoing =
  out_content :: pyval
  out_embed :: "embed option"

text \<open>
  A line of the console log: the method called on \<open>self.console\<close> and its argument.
  \<open>Fmt a e b\<close> is the f-string \<open>a{e}b\<close> around an exception \<open>e\<close>.
\<close>

datatype console_method = console_debug | console_info | console_warning | console_error

datatype console_text = Text pyval | Fmt string exn string

record delayed_log =
  dl_level :: string
  dl_message :: pyval
  dl_args :: "pyval list"
  dl_kwargs :: kwargs

text \<open>
  The mutable state: the console lines written, the deliveries that went through,
  and the pending records of \<open>self.send_queue\<close> (oldest first).
\<close>

record world =
  console_lines :: "(console_method \<times> console_text) list"
  sent :: "(pyval \<times> outgoing) list"
  send_queue :: "delayed_log list"

text \<open>
  The collaborators, as they answer during one call: \<open>self.bot.get_channel\<close>,
  \<open>self.bot.get_owner\<close>, \<open>target.send\<close> (\<open>None\<close> when the delivery goes through,
  else the exception it raises), \<open>datetime.datetime.utcnow\<close>, the joined text of
  \<open>traceback.format_exception\<close>, and the iteration order of a set.
\<close>

record env =
  get_channel :: "int \<Rightarrow> pyval"
  get_owner :: pyval
  target_send :: "pyval \<Rightarrow> outgoing \<Rightarrow> exn option"
  utcnow :: pyval
  format_exception :: "pyval \<Rightarrow> string"
  set_order :: "pyval list \<Rightarrow> pyval list"

text \<open>A renderer returns the summary and the embed, each possibly \<open>None\<close>.\<close>

type_synonym rendered = "pyval \<times> embed option"

type_synonym renderer = "pyval list \<Rightarrow> kwargs \<Rightarrow> exn + rendered"

text \<open>
  The logger's own fields. \<open>other_renderers\<close> are the \<open>render_<event_type>_event\<close>
  methods but the two modelled below, by attribute name.
\<close>

record logger =
  debug_mode :: bool
  queue_wait :: pyval
  send :: pyval
  other_renderers :: "string \<Rightarrow> renderer option"

definition DEFAULT_LOG_SEND :: bool where
  "DEFAULT_LOG_SEND = False"

definition DEFAULT_ERROR_LOG_SEND :: bool where
  "DEFAULT_ERROR_LOG_SEND = True"

definition console_log :: "console_method \<Rightarrow> console_text \<Rightarrow> world \<Rightarrow> world" where
  "console_log m t w = w\<lparr>console_lines := console_lines w @ [(m, t)]\<rparr>"

text \<open>\<open>await target.send(...)\<close>.\<close>

definition send_to :: "env \<Rightarrow> pyval \<Rightarrow> outgoing \<Rightarrow> world \<Rightarrow> (exn + unit) \<times> world" where
  "send_to env target msg w =
     (case target_send env target msg of
        None \<Rightarrow> (Inr (), w\<lparr>sent := sent w @ [(target, msg)]\<rparr>)
      | Some e \<Rightarrow> (Inl e, w))"

text \<open>\<open>try: ... except discord.Forbidden: pass\<close>.\<close>

definition except_forbidden :: "(exn + unit) \<times> world \<Rightarrow> (exn + unit) \<times> world" where
  "except_forbidden r =
     (case r of
        (Inl e, w) \<Rightarrow> if exn_cls e = Forbidden then (Inr (), w) else (Inl e, w)
      | (Inr u, w) \<Rightarrow> (Inr u, w))"

text \<open>\<open>self.bot.get_channel(int(channel_id)) if channel_id else None\<close>.\<close>

definition lookup_channel :: "env \<Rightarrow> pyval \<Rightarrow> exn + pyval" where
  "lookup_channel env channel_id =
     (if truthy channel_id
      then and_then (py_int channel_id) (\<lambda>i. Inr (get_channel env i))
      else Inr PNone)"

subsection \<open>Routing\<close>

definition is_console_only :: "logger \<Rightarrow> kwargs \<Rightarrow> bool \<Rightarrow> bool" where
  "is_console_only self kwargs is_error =
     (if \<not> truthy (send self) then True
      else
        let default_send = (if is_error then DEFAULT_ERROR_LOG_SEND else DEFAULT_LOG_SEND)
        in \<not> truthy (kw_get kwargs ''send'' (PBool default_send)))"

subsection \<open>Rendering events\<close>

definition get_server_text :: "pyval \<Rightarrow> pyval \<Rightarrow> exn + string" where
  "get_server_text upper_object guild =
     (let g = (if truthy guild then guild else getattr_default upper_object ''guild'' PNone)
      in if truthy g
         then and_then (py_getattr g ''name'') (\<lambda>name.
              and_then (py_getattr g ''id'') (\<lambda>gid.
                Inr (py_str name @ '' ('' @ py_str gid @ '')'')))
         else Inr ''DM'')"

definition render_default_event :: renderer where
  "render_default_event args kwargs =
     (let event_type = kw_get kwargs ''event_type'' PNone;
          message = PStr (''New event: '' @ py_str event_type)
      in and_then (generate_log_embed message ''event'') (\<lambda>e. Inr (message, Some e)))"

text \<open>The loop \<open>for reaction in reactions: unique_emojis.add(reaction.emoji)\<close>.\<close>

fun collect_emojis :: "pyval list \<Rightarrow> pyval list \<Rightarrow> exn + pyval list" where
  "collect_emojis [] unique_emojis = Inr unique_emojis"
| "collect_emojis (reaction # rest) unique_emojis =
     and_then (py_getattr reaction ''emoji'') (\<lambda>emoji.
       if hashable emoji then collect_emojis rest (set_add unique_emojis emoji)
       else Inl (Exn TypeError None))"

text \<open>\<open>str.join\<close> takes strings only.\<close>

fun str_items :: "pyval list \<Rightarrow> exn + string list" where
  "str_items [] = Inr []"
| "str_items (PStr s # xs) = and_then (str_items xs) (\<lambda>ss. Inr (s # ss))"
| "str_items (_ # xs) = Inl (Exn TypeError None)"

text \<open>
  \<open>render_reaction_clear_event\<close>. The local \<open>message\<close> is first the message object
  and then, once assigned the summary, a string (\<open>summary\<close> here); the fields that
  follow are read off whatever \<open>message\<close> holds at that point.
\<close>

definition render_reaction_clear_event :: "env \<Rightarrow> renderer" where
  "render_reaction_clear_event env args kwargs =
     (let message = kw_get kwargs ''message'' PNone;
          reactions = kw_get kwargs ''reactions'' PNone
      in and_then (py_getattr message ''channel'') (\<lambda>channel.
         and_then (get_server_text channel PNone) (\<lambda>server_text.
         and_then (py_len reactions) (\<lambda>n.
         and_then (py_getattr message ''id'') (\<lambda>message_id.
           let summary =
             PStr (str_int (int n) @ '' cleared from message with ID '' @ py_str message_id)
           in
         and_then (py_iter reactions) (\<lambda>items.
         and_then (collect_emojis items []) (\<lambda>unique_emojis.
         and_then (generate_log_embed summary ''event'') (\<lambda>e0.
         and_then (str_items (set_order env unique_emojis)) (\<lambda>emoji_strs.
           let e1 = add_field ''Emojis'' (PStr (join '','' emoji_strs)) e0 in
         and_then (py_getattr summary ''content'') (\<lambda>content.
           let e2 = add_field ''Message''
                      (if truthy content then content else PStr ''None'') e1 in
         and_then (py_getattr summary ''author'') (\<lambda>author.
           let e3 = add_field ''Message Author'' author e2 in
         and_then (py_getattr summary ''channel'') (\<lambda>channel2.
           let e4 = add_field ''Channel''
                      (getattr_default channel2 ''name'' (PStr ''DM'')) e3;
               e5 = add_field ''Server'' (PStr server_text) e4
           in Inr (summary, Some e5)))))))))))))"

text \<open>
  \<open>getattr(self, render_func_name, self.render_default_event)\<close>.
\<close>

definition render_func_of :: "logger \<Rightarrow> env \<Rightarrow> string \<Rightarrow> renderer" where
  "render_func_of self env render_func_name =
     (if render_func_name = ''render_default_event'' then render_default_event
      else if render_func_name = ''render_reaction_clear_event''
        then render_reaction_clear_event env
      else (case other_renderers self render_func_name of
              Some f \<Rightarrow> f
            | None \<Rightarrow> render_default_event))"

definition generate_event_data ::
  "logger \<Rightarrow> env \<Rightarrow> pyval \<Rightarrow> pyval list \<Rightarrow> kwargs \<Rightarrow> world \<Rightarrow> (exn + rendered) \<times> world" where
  "generate_event_data self env event_type args kwargs w =
     (let render_func_name = ''render_'' @ py_str event_type @ ''_event'';
          render_func = render_func_of self env render_func_name;
          kwargs' = kwargs(''event_type'' \<mapsto> event_type)
      in case render_func args kwargs' of
           Inr r \<Rightarrow> (Inr r, w)
         | Inl exception \<Rightarrow>
             (render_default_event args kwargs',
              console_log console_error
                (Fmt ''Could not render event data: '' exception '' (using default render)'')
                w))"

subsection \<open>The handlers\<close>

text \<open>
  A step that may raise, inside a handler: the exception leaves the handler with the
  state as it is at that point.
\<close>

definition or_raise ::
  "exn + 'a \<Rightarrow> world \<Rightarrow> ('a \<Rightarrow> (exn + 'b) \<times> world) \<Rightarrow> (exn + 'b) \<times> world" where
  "or_raise m w f = (case m of Inl e \<Rightarrow> (Inl e, w) | Inr x \<Rightarrow> f x)"

text \<open>
  \<open>handle_generic_log\<close>; \<open>console\<close> is the method of \<open>self.console\<close> that the caller
  passes.
\<close>

definition handle_generic_log ::
  "logger \<Rightarrow> env \<Rightarrow> pyval \<Rightarrow> string \<Rightarrow> console_method \<Rightarrow> pyval list \<Rightarrow> kwargs \<Rightarrow> world
    \<Rightarrow> (exn + unit) \<times> world" where
  "handle_generic_log self env message level' console args kwargs w =
     (let console_only = is_console_only self kwargs False;
          channel_id = kw_get kwargs ''channel'' PNone;
          w1 = console_log console (Text message) w
      in if console_only then (Inr (), w1)
         else
           or_raise (lookup_channel env channel_id) w1 (\<lambda>channel.
             let target = (if truthy channel then channel else get_owner env) in
             if \<not> truthy target
             then (Inr (),
                   console_log console_warning
                     (Text (PStr (''Could not determine Discord target to send ''
                                  @ level' @ '' log'')))
                     w1)
             else
               or_raise (generate_log_embed message level') w1 (\<lambda>e0.
                 let e1 = e0\<lparr>timestamp := Some (kw_get kwargs ''time'' (utcnow env))\<rparr>
                 in except_forbidden
                      (send_to env target \<lparr>out_content = PNone, out_embed = Some e1\<rparr> w1))))"

text \<open>
  \<open>handle_event_log\<close>. The dict that \<open>generate_event_data\<close> returns has two keys and
  is never falsy; an embed from the factory is never falsy (its title is not empty).
\<close>

definition deliver_event ::
  "env \<Rightarrow> kwargs \<Rightarrow> pyval \<Rightarrow> embed option \<Rightarrow> world \<Rightarrow> (exn + unit) \<times> world" where
  "deliver_event env kwargs target embed_opt w1 =
     (case embed_opt of
        None \<Rightarrow> (Inr (), w1)
      | Some e0 \<Rightarrow>
          let e1 = e0\<lparr>timestamp := Some (kw_get kwargs ''time'' (utcnow env))\<rparr>
          in except_forbidden
               (send_to env target \<lparr>out_content = PNone, out_embed = Some e1\<rparr> w1))"

definition handle_event_log ::
  "logger \<Rightarrow> env \<Rightarrow> pyval \<Rightarrow> pyval list \<Rightarrow> kwargs \<Rightarrow> world \<Rightarrow> (exn + unit) \<times> world" where
  "handle_event_log self env event_type args kwargs w =
     (let console_only = is_console_only self kwargs False;
          channel_id = kw_get kwargs ''channel'' PNone;
          event_data = generate_event_data self env event_type args kwargs w;
          w0 = snd event_data
      in or_raise (fst event_data) w0 (\<lambda>(message, embed_opt).
           if \<not> truthy message then (Inr (), w0)
           else
             let w1 = console_log console_info (Text message) w0 in
             if console_only then (Inr (), w1)
             else
               or_raise (lookup_channel env channel_id) w1 (\<lambda>channel.
                 let target = (if truthy channel then channel else get_owner env) in
                 if \<not> truthy target
                 then (Inr (),
                       console_log console_warning
                         (Text (PStr ''Could not determine Discord target to send EVENT log''))
                         w1)
                 else deliver_event env kwargs target embed_opt w1)))"

text \<open>
  The two deliveries of an error log, inside one \<open>try\<close>: the second is not attempted
  when the first raises.
\<close>

definition send_error_log ::
  "env \<Rightarrow> pyval \<Rightarrow> pyval \<Rightarrow> embed \<Rightarrow> string \<Rightarrow> world \<Rightarrow> (exn + unit) \<times> world" where
  "send_error_log env target content e exception_string w =
     (case send_to env target \<lparr>out_content = content, out_embed = Some e\<rparr> w of
        (Inl ex, w') \<Rightarrow> (Inl ex, w')
      | (Inr _, w') \<Rightarrow>
          send_to env target
            \<lparr>out_content = PStr (''```py'' @ [CHR 0x0A] @ exception_string @ ''```''),
             out_embed = None\<rparr> w')"

text \<open>
  \<open>handle_error_log\<close>. \<open>mention_of\<close> is \<open>x.mention if critical else None\<close>, where
  \<open>x\<close> is reached by the attribute path given.
\<close>

fun getattr_path :: "pyval \<Rightarrow> string list \<Rightarrow> exn + pyval" where
  "getattr_path v [] = Inr v"
| "getattr_path v (name # names) = and_then (py_getattr v name) (\<lambda>x. getattr_path x names)"

definition mention_of :: "pyval \<Rightarrow> string list \<Rightarrow> pyval \<Rightarrow> exn + pyval" where
  "mention_of v path critical =
     (if truthy critical then getattr_path v (path @ [''mention'']) else Inr PNone)"

definition handle_error_log ::
  "logger \<Rightarrow> env \<Rightarrow> pyval \<Rightarrow> pyval list \<Rightarrow> kwargs \<Rightarrow> world \<Rightarrow> (exn + unit) \<times> world" where
  "handle_error_log self env message args kwargs w =
     (let exception = kw_get kwargs ''exception'' PNone;
          critical = kw_get kwargs ''critical'' PNone;
          channel_id = kw_get kwargs ''channel'' PNone;
          console_only = is_console_only self kwargs True;
          w1 = console_log console_error (Text message) w
      in if console_only then (Inr (), w1)
         else
           or_raise (py_getattr exception ''__traceback__'') w1 (\<lambda>tb.
             let exception_string = take 1992 (format_exception env exception) in
             or_raise (generate_log_embed message ''error'') w1 (\<lambda>e0.
               let e1 = e0\<lparr>timestamp := Some (kw_get kwargs ''time'' (utcnow env))\<rparr> in
               or_raise (lookup_channel env channel_id) w1 (\<lambda>channel.
                 let target = (if truthy channel then channel else get_owner env) in
                 or_raise (if truthy channel
                           then mention_of channel [''guild'', ''owner''] critical
                           else mention_of target [] critical) w1 (\<lambda>content.
                   if \<not> truthy target
                   then (Inr (),
                         console_log console_warning
                           (Text (PStr ''Could not determine Discord target to send ERROR log''))
                           w1)
                   else except_forbidden
                          (send_error_log env target content e1 exception_string w1))))))"

subsection \<open>The queue\<close>

text \<open>
  \<open>DelayedLog.__init__\<close>, and its call \<open>DelayedLog(level=..., log_message=..., *args,
  **kwargs)\<close>: a positional argument or a \<open>level\<close> key would give \<open>level\<close> twice, a
  \<open>log_message\<close> key would give the message twice; \<open>event\<close> passes no
  \<open>log_message\<close>, so there the key of the bag is taken.
\<close>

definition DelayedLog :: "env \<Rightarrow> string \<Rightarrow> pyval list \<Rightarrow> pyval \<Rightarrow> kwargs \<Rightarrow> delayed_log" where
  "DelayedLog env level args log_message kwargs =
     \<lparr>dl_level = level, dl_message = log_message, dl_args = args,
      dl_kwargs = kwargs(''time'' \<mapsto> utcnow env)\<rparr>"

definition call_DelayedLog ::
  "env \<Rightarrow> string \<Rightarrow> pyval option \<Rightarrow> pyval list \<Rightarrow> kwargs \<Rightarrow> exn + delayed_log" where
  "call_DelayedLog env level log_message args kwargs =
     (if args \<noteq> [] \<or> kwargs ''level'' \<noteq> None then Inl (Exn TypeError None)
      else
        case log_message of
          Some m \<Rightarrow>
            if kwargs ''log_message'' \<noteq> None then Inl (Exn TypeError None)
            else Inr (DelayedLog env level [] m kwargs)
        | None \<Rightarrow>
            Inr (DelayedLog env level [] (kw_get kwargs ''log_message'' PNone)
                   (kwargs(''log_message'' := None))))"

text \<open>
  \<open>await self.send_queue.put(...)\<close>. A put on a full queue (1000 records) suspends
  the caller until the drain loop has taken a record; the state given is the one
  after the put.
\<close>

definition enqueue ::
  "env \<Rightarrow> string \<Rightarrow> pyval option \<Rightarrow> pyval list \<Rightarrow> kwargs \<Rightarrow> world \<Rightarrow> (exn + unit) \<times> world" where
  "enqueue env level log_message args kwargs w =
     (case call_DelayedLog env level log_message args kwargs of
        Inl e \<Rightarrow> (Inl e, w)
      | Inr d \<Rightarrow> (Inr (), w\<lparr>send_queue := send_queue w @ [d]\<rparr>))"

text \<open>
  The call \<open>self.handle_generic_log(message, level, console, *args, **kwargs)\<close>: a
  bag with a \<open>level_\<close> or \<open>console\<close> key gives that parameter twice.
\<close>

definition call_handle_generic_log ::
  "logger \<Rightarrow> env \<Rightarrow> pyval \<Rightarrow> string \<Rightarrow> console_method \<Rightarrow> pyval list \<Rightarrow> kwargs \<Rightarrow> world
    \<Rightarrow> (exn + unit) \<times> world" where
  "call_handle_generic_log self env message level' console args kwargs w =
     (if kwargs ''level_'' \<noteq> None \<or> kwargs ''console'' \<noteq> None
      then (Inl (Exn TypeError None), w)
      else handle_generic_log self env message level' console args kwargs w)"

subsection \<open>The public methods\<close>

definition info ::
  "logger \<Rightarrow> env \<Rightarrow> pyval \<Rightarrow> pyval list \<Rightarrow> kwargs \<Rightarrow> world \<Rightarrow> (exn + unit) \<times> world" where
  "info self env message args kwargs w =
     (if truthy (queue_wait self) then enqueue env ''info'' (Some message) args kwargs w
      else call_handle_generic_log self env message ''info'' console_info args kwargs w)"

definition debug ::
  "logger \<Rightarrow> env \<Rightarrow> pyval \<Rightarrow> pyval list \<Rightarrow> kwargs \<Rightarrow> world \<Rightarrow> (exn + unit) \<times> world" where
  "debug self env message args kwargs w =
     (if \<not> debug_mode self then (Inr (), w)
      else if truthy (queue_wait self)
        then enqueue env ''debug'' (Some message) args kwargs w
      else call_handle_generic_log self env message ''debug'' console_debug args kwargs w)"

definition warning ::
  "logger \<Rightarrow> env \<Rightarrow> pyval \<Rightarrow> pyval list \<Rightarrow> kwargs \<Rightarrow> world \<Rightarrow> (exn + unit) \<times> world" where
  "warning self env message args kwargs w =
     (if truthy (queue_wait self) then enqueue env ''warning'' (Some message) args kwargs w
      else call_handle_generic_log self env message ''warning'' console_warning args kwargs w)"

definition event ::
  "logger \<Rightarrow> env \<Rightarrow> pyval \<Rightarrow> pyval list \<Rightarrow> kwargs \<Rightarrow> world \<Rightarrow> (exn + unit) \<times> world" where
  "event self env event_type args kwargs w =
     (if truthy (queue_wait self)
      then enqueue env ''event'' None args (kwargs(''event_type'' \<mapsto> event_type)) w
      else handle_event_log self env event_type args kwargs w)"

definition error ::
  "logger \<Rightarrow> env \<Rightarrow> pyval \<Rightarrow> pyval list \<Rightarrow> kwargs \<Rightarrow> world \<Rightarrow> (exn + unit) \<times> world" where
  "error self env message args kwargs w =
     (if truthy (queue_wait self) then enqueue env ''error'' (Some message) args kwargs w
      else handle_error_log self env message args kwargs w)"

subsection \<open>The drain loop\<close>

text \<open>
  \<open>handle_queue_log\<close>: \<open>None\<close> when the queue is empty (\<open>get\<close> suspends until a
  record arrives). A record is a \<open>DelayedLog\<close>, which is never falsy.
\<close>

definition handle_queue_log ::
  "logger \<Rightarrow> env \<Rightarrow> world \<Rightarrow> ((exn + unit) \<times> world) option" where
  "handle_queue_log self env w =
     (case send_queue w of
        [] \<Rightarrow> None
      | log_data # pending \<Rightarrow>
          let w1 = w\<lparr>send_queue := pending\<rparr> in
          Some
           (if dl_level log_data = ''info''
            then call_handle_generic_log self env (dl_message log_data) ''info'' console_info
                   (dl_args log_data) (dl_kwargs log_data) w1
            else if dl_level log_data = ''debug''
            then call_handle_generic_log self env (dl_message log_data) ''debug'' console_debug
                   (dl_args log_data) (dl_kwargs log_data) w1
            else if dl_level log_data = ''warning''
            then call_handle_generic_log self env (dl_message log_data) ''warning''
                   console_warning (dl_args log_data) (dl_kwargs log_data) w1
            else if dl_level log_data = ''event''
            then
              (let event_type = kw_get (dl_kwargs log_data) ''event_type'' PNone;
                   kwargs = (dl_kwargs log_data)(''event_type'' := None)
               in if \<not> truthy event_type
                  then (Inl (Exn AttributeError
                               (Some ''Unable to get event_type from event log data'')), w1)
                  else handle_event_log self env event_type (dl_args log_data) kwargs w1)
            else if dl_level log_data = ''error''
            then handle_error_log self env (dl_message log_data) (dl_args log_data)
                   (dl_kwargs log_data) w1
            else (Inr (),
                  console_log console_warning
                    (Text (PStr (''Received unprocessable log level: '' @ dl_level log_data)))
                    w1)))"

text \<open>
  One pass of the body of \<open>while True\<close> in \<open>log_from_queue\<close>: the record is handled
  and whatever it raises is logged. The sleep that follows only passes time.
\<close>

definition log_from_queue_pass :: "logger \<Rightarrow> env \<Rightarrow> world \<Rightarrow> world option" where
  "log_from_queue_pass self env w =
     (case handle_queue_log self env w of
        None \<Rightarrow> None
      | Some (Inr _, w') \<Rightarrow> Some w'
      | Some (Inl exception, w') \<Rightarrow>
          Some (console_log console_error
                  (Fmt ''Could not read from log queue: '' exception '''') w'))"


subsection \<open>Sample collaborators and loggers\<close>

text \<open>
  Concrete values on which the model is run: a clock reading, the bot's owner, an
  environment in which no channel resolves and every delivery goes through, and the
  logger with and without its queue.
\<close>

definition noon :: pyval where
  "noon = PObj 1200 ''2021-03-01 12:00:00'' ''datetime.datetime(2021, 3, 1, 12, 0)'' []"

definition owner_user :: pyval where
  "owner_user = PObj 1 ''owner#0001'' ''<User id=1>'' [(''mention'', PStr ''<@1>'')]"

definition sample_env :: "pyval \<Rightarrow> env" where
  "sample_env owner =
     \<lparr>get_channel = (\<lambda>_. PNone), get_owner = owner, target_send = (\<lambda>_ _. None),
      utcnow = noon, format_exception = (\<lambda>_. ''Traceback (most recent call last):''),
      set_order = (\<lambda>xs. xs)\<rparr>"

definition fresh_world :: world where
  "fresh_world = \<lparr>console_lines = [], sent = [], send_queue = []\<rparr>"

definition sample_logger :: "pyval \<Rightarrow> logger" where
  "sample_logger wait =
     \<lparr>debug_mode = True, queue_wait = wait, send = PBool True,
      other_renderers = (\<lambda>_. None)\<rparr>"

definition dawn :: pyval where
  "dawn = PObj 600 ''2021-03-01 06:00:00'' ''datetime.datetime(2021, 3, 1, 6, 0)'' []"

definition dusk :: pyval where
  "dusk = PObj 1800 ''2021-03-01 18:00:00'' ''datetime.datetime(2021, 3, 1, 18, 0)'' []"

definition failure :: pyval where
  "failure =
     PObj 3 ''division by zero'' ''ZeroDivisionError(...)'' [(''__traceback__'', PNone)]"

text \<open>
  The environment of a later pass of the drain loop, when the clock reads \<open>dusk\<close>,
  and an option bag that asks for remote delivery and names \<open>dawn\<close> as its time.
\<close>

definition dusk_env :: env where
  "dusk_env = (sample_env owner_user)\<lparr>utcnow := dusk\<rparr>"

definition dawn_bag :: kwargs where
  "dawn_bag = [''time'' \<mapsto> dawn, ''send'' \<mapsto> PBool True]"

subsection \<open>What a run delivered\<close>

text \<open>
  \<open>deliveries_stamped v before after\<close>: the deliveries \<open>after\<close> a run are those
  \<open>before\<close> it and then new ones, and every embed among the new ones carries the
  timestamp \<open>v\<close>.
\<close>

definition deliveries_stamped ::
  "pyval \<Rightarrow> (pyval \<times> outgoing) list \<Rightarrow> (pyval \<times> outgoing) list \<Rightarrow> bool" where
  "deliveries_stamped v before after =
     (take (length before) after = before \<and>
      list_all (\<lambda>(target, msg).
                  case out_embed msg of None \<Rightarrow> True | Some e \<Rightarrow> timestamp e = Some v)
        (drop (length before) after))"

subsection \<open>The fields of a diff, in the specification's words\<close>

text \<open>
  The two lists of a diff entry ``treated as sets'', and the members of exactly one
  of them.
\<close>

definition list_sym_diff :: "pyval list \<Rightarrow> pyval list \<Rightarrow> pyval list" where
  "list_sym_diff after_list before_list =
     set_sym_diff (foldl set_add [] after_list) (foldl set_add [] before_list)"

text \<open>
  The fields that the specification gives one diff entry: for a list, one field
  labelled \<open><ATTR> added\<close> when the after-list is the longer and \<open><ATTR> removed\<close>
  otherwise, its value the comma-joined string forms of the symmetric difference;
  for anything else, the \<open>(before)\<close> and \<open>(after)\<close> fields with the values as they
  are. Of a list whose after-value is no list it says nothing.
\<close>

definition diff_entry_fields ::
  "(pyval list \<Rightarrow> pyval list) \<Rightarrow> string \<times> pyval \<times> pyval \<Rightarrow> (string \<times> pyval) list" where
  "diff_entry_fields order entry =
     (case entry of
        (attr, PList bs, PList as) \<Rightarrow>
          [(py_upper attr @ (if length bs < length as then '' added'' else '' removed''),
            PStr (join '','' (map py_str (order (list_sym_diff as bs)))))]
      | (attr, PList bs, _) \<Rightarrow> []
      | (attr, before, after) \<Rightarrow>
          [(py_upper attr @ '' (before)'', before), (py_upper attr @ '' (after)'', after)])"

text \<open>No two members of the list are equal.\<close>

fun py_distinct :: "pyval list \<Rightarrow> bool" where
  "py_distinct [] = True"
| "py_distinct (x # xs) = (\<not> py_member x xs \<and> py_distinct xs)"

subsection \<open>The routing decision, in the specification's words\<close>

text \<open>
  The per-level default of the \<open>send\<close> option: false for info, debug, warning and
  event, true for error. The effective option is the caller's \<open>send\<close> when the bag
  has one, else that default. A record is console-only when the global flag is false
  or the effective option is false.
\<close>

definition level_default_send :: "string \<Rightarrow> bool" where
  "level_default_send level = (level = ''error'')"

definition effective_send :: "kwargs \<Rightarrow> string \<Rightarrow> pyval" where
  "effective_send kwargs level =
     (case kwargs ''send'' of Some v \<Rightarrow> v | None \<Rightarrow> PBool (level_default_send level))"

definition spec_console_only :: "pyval \<Rightarrow> kwargs \<Rightarrow> string \<Rightarrow> bool" where
  "spec_console_only global_send kwargs level =
     (\<not> truthy global_send \<or> \<not> truthy (effective_send kwargs level))"

section \<open>Basic facts\<close>

lemma and_then_simps:
  "and_then (Inl e) f = Inl e" "and_then (Inr x) f = f x"
  by (simp_all add: and_then_def)

lemma or_raise_simps:
  "or_raise (Inl e) w f = (Inl e, w)" "or_raise (Inr x) w f = f x"
  by (simp_all add: or_raise_def)

lemma sent_console_log [simp]: "sent (console_log m t w) = sent w"
  by (simp add: console_log_def)

lemma queue_console_log [simp]: "send_queue (console_log m t w) = send_queue w"
  by (simp add: console_log_def)

lemma snd_except_forbidden [simp]: "snd (except_forbidden r) = snd r"
  by (cases r) (auto simp: except_forbidden_def split: sum.splits)

lemma sent_send_to:
  "sent (snd (send_to env t m w)) =
     (case target_send env t m of None \<Rightarrow> sent w @ [(t, m)] | Some _ \<Rightarrow> sent w)"
  by (simp add: send_to_def split: option.splits)

lemma except_forbidden_send_to:
  "target_send env target msg = Some exc \<Longrightarrow>
   except_forbidden (send_to env target msg w) =
     (if exn_cls exc = Forbidden then (Inr (), w) else (Inl exc, w))"
  by (simp add: except_forbidden_def send_to_def)

lemma generate_event_data_sent:
  "sent (snd (generate_event_data self env event_type args kwargs w)) = sent w"
  by (simp add: generate_event_data_def Let_def console_log_def split: sum.splits)

section \<open>The embed factory\<close>

lemma py_upper_level_names:
  "py_upper ''info'' = ''INFO''" "py_upper ''debug'' = ''DEBUG''"
  "py_upper ''warning'' = ''WARNING''" "py_upper ''error'' = ''ERROR''"
  "py_upper ''event'' = ''EVENT''"
  by (simp_all add: py_upper_def upper_char_def)

lemma py_lower_level_names:
  "py_lower ''info'' = ''info''" "py_lower ''debug'' = ''debug''"
  "py_lower ''warning'' = ''warning''" "py_lower ''error'' = ''error''"
  "py_lower ''event'' = ''event''"
  by (simp_all add: py_lower_def lower_char_def)

lemma generate_log_embed_event:
  "generate_log_embed message ''event'' = Inr (EventEmbed message)"
  by (simp add: generate_log_embed_def py_lower_level_names)

lemma generate_log_embed_error:
  "generate_log_embed message ''error'' = Inr (ErrorEmbed message)"
  by (simp add: generate_log_embed_def py_lower_level_names)

text \<open>
  C3, as the claim states it, fails: the level is lowercased before it is compared, so
  \<open>INFO\<close>, which is none of the five names, gets the info embed and no error.
\<close>

theorem generate_log_embed_uppercase_level_accepted:
  "''INFO'' \<notin> set level_names \<and>
   generate_log_embed (PStr ''started'') ''INFO'' =
     Inr \<lparr>title = ''INFO'', description = PStr ''started'', color = Green,
          timestamp = None, embed_fields = []\<rparr>"
  by (simp add: level_names_def generate_log_embed_def py_lower_def lower_char_def
      InfoEmbed_def LogEmbed_def py_upper_level_names)

text \<open>
  C3, amended: \<open>generate_log_embed\<close> decides on the lowercased level. When that is one
  of the five names, the result is a container titled with the uppercased name, in the
  level's fixed colour, holding the message; for every other input it raises the
  invalid-level \<open>ValueError\<close>. On the five names themselves the titles are \<open>INFO\<close>,
  \<open>DEBUG\<close>, \<open>WARNING\<close>, \<open>ERROR\<close> and \<open>EVENT\<close>.
\<close>

theorem generate_log_embed_by_lowercased_level:
  "generate_log_embed message level =
     (if py_lower level \<in> set level_names
      then Inr \<lparr>title = py_upper (py_lower level), description = message,
                color = level_color (py_lower level), timestamp = None, embed_fields = []\<rparr>
      else Inl (Exn ValueError (Some ''invalid log level provided''))) \<and>
   map (\<lambda>l. generate_log_embed message l) level_names =
     [Inr \<lparr>title = ''INFO'', description = message, color = Green,
           timestamp = None, embed_fields = []\<rparr>,
      Inr \<lparr>title = ''DEBUG'', description = message, color = DarkGreen,
           timestamp = None, embed_fields = []\<rparr>,
      Inr \<lparr>title = ''WARNING'', description = message, color = Gold,
           timestamp = None, embed_fields = []\<rparr>,
      Inr \<lparr>title = ''ERROR'', description = message, color = Red,
           timestamp = None, embed_fields = []\<rparr>,
      Inr \<lparr>title = ''EVENT'', description = message, color = Blurple,
           timestamp = None, embed_fields = []\<rparr>]"
proof
  show "generate_log_embed message level =
     (if py_lower level \<in> set level_names
      then Inr \<lparr>title = py_upper (py_lower level), description = message,
                color = level_color (py_lower level), timestamp = None, embed_fields = []\<rparr>
      else Inl (Exn ValueError (Some ''invalid log level provided'')))"
    by (simp add: generate_log_embed_def level_names_def Let_def InfoEmbed_def
        DebugEmbed_def WarningEmbed_def ErrorEmbed_def EventEmbed_def LogEmbed_def)
  show "map (\<lambda>l. generate_log_embed message l) level_names =
     [Inr \<lparr>title = ''INFO'', description = message, color = Green,
           timestamp = None, embed_fields = []\<rparr>,
      Inr \<lparr>title = ''DEBUG'', description = message, color = DarkGreen,
           timestamp = None, embed_fields = []\<rparr>,
      Inr \<lparr>title = ''WARNING'', description = message, color = Gold,
           timestamp = None, embed_fields = []\<rparr>,
      Inr \<lparr>title = ''ERROR'', description = message, color = Red,
           timestamp = None, embed_fields = []\<rparr>,
      Inr \<lparr>title = ''EVENT'', description = message, color = Blurple,
           timestamp = None, embed_fields = []\<rparr>]"
    by (simp add: generate_log_embed_def level_names_def Let_def InfoEmbed_def
        DebugEmbed_def WarningEmbed_def ErrorEmbed_def EventEmbed_def LogEmbed_def
        py_lower_level_names py_upper_level_names)
qed

theorem generate_log_embed_by_lowercased_level_witness:
  "generate_log_embed (PStr ''m'') ''Warning'' =
     Inr \<lparr>title = ''WARNING'', description = PStr ''m'', color = Gold,
          timestamp = None, embed_fields = []\<rparr> \<and>
   generate_log_embed (PStr ''m'') ''trace'' =
     Inl (Exn ValueError (Some ''invalid log level provided''))"
  using generate_log_embed_by_lowercased_level [of "PStr ''m''" "''Warning''"]
    generate_log_embed_by_lowercased_level [of "PStr ''m''" "''trace''"]
  by (simp add: level_names_def py_lower_def lower_char_def py_upper_def upper_char_def)

section \<open>Routing: console only or remote\<close>

lemma is_console_only_iff:
  "is_console_only self kwargs is_error =
     (\<not> truthy (send self) \<or>
      \<not> truthy (case kwargs ''send'' of Some v \<Rightarrow> v | None \<Rightarrow> PBool is_error))"
  by (simp add: is_console_only_def kw_get_def DEFAULT_LOG_SEND_def DEFAULT_ERROR_LOG_SEND_def
      split: option.splits)

lemma generic_console_only:
  "is_console_only self kwargs False \<Longrightarrow>
   handle_generic_log self env message lvl console args kwargs w =
     (Inr (), console_log console (Text message) w)"
  by (simp add: handle_generic_log_def Let_def)

lemma error_console_only:
  "is_console_only self kwargs True \<Longrightarrow>
   handle_error_log self env message args kwargs w =
     (Inr (), console_log console_error (Text message) w)"
  by (simp add: handle_error_log_def Let_def)

lemma event_console_only:
  "is_console_only self kwargs False \<Longrightarrow>
   sent (snd (handle_event_log self env event_type args kwargs w)) = sent w"
  by (auto simp add: handle_event_log_def Let_def or_raise_def generate_event_data_sent
      console_log_def split: sum.splits prod.splits)

lemma spec_console_only_generic:
  "level \<noteq> ''error'' \<Longrightarrow>
   spec_console_only (send self) kwargs level = is_console_only self kwargs False"
  by (simp add: spec_console_only_def effective_send_def level_default_send_def
      is_console_only_def kw_get_def DEFAULT_LOG_SEND_def split: option.splits)

lemma spec_console_only_error:
  "spec_console_only (send self) kwargs ''error'' = is_console_only self kwargs True"
  by (simp add: spec_console_only_def effective_send_def level_default_send_def
      is_console_only_def kw_get_def DEFAULT_ERROR_LOG_SEND_def split: option.splits)

lemma generic_routing:
  assumes "lookup_channel env (kw_get kwargs ''channel'' PNone) = Inr channel"
    and "truthy (if truthy channel then channel else get_owner env)"
    and "\<forall>msg. target_send env (if truthy channel then channel else get_owner env) msg = None"
    and "generate_log_embed message lvl = Inr e0"
  shows "(sent (snd (handle_generic_log self env message lvl console args kwargs w)) = sent w)
           = is_console_only self kwargs False"
  using assms
  by (simp add: handle_generic_log_def Let_def or_raise_def sent_send_to)

lemma call_generic_routing:
  assumes "kwargs ''level_'' = None" "kwargs ''console'' = None"
    and "lookup_channel env (kw_get kwargs ''channel'' PNone) = Inr channel"
    and "truthy (if truthy channel then channel else get_owner env)"
    and "\<forall>msg. target_send env (if truthy channel then channel else get_owner env) msg = None"
    and "generate_log_embed message lvl = Inr e0"
  shows "(sent (snd (call_handle_generic_log self env message lvl console args kwargs w)) = sent w)
           = is_console_only self kwargs False"
  using assms(1,2) generic_routing [OF assms(3-6)]
  by (simp add: call_handle_generic_log_def)

lemma event_routing:
  assumes "lookup_channel env (kw_get kwargs ''channel'' PNone) = Inr channel"
    and "truthy (if truthy channel then channel else get_owner env)"
    and "\<forall>msg. target_send env (if truthy channel then channel else get_owner env) msg = None"
    and "fst (generate_event_data self env event_type args kwargs w) = Inr (summary, Some e0)"
    and "truthy summary"
  shows "(sent (snd (handle_event_log self env event_type args kwargs w)) = sent w)
           = is_console_only self kwargs False"
  using assms generate_event_data_sent [of self env event_type args kwargs w]
  by (simp add: handle_event_log_def Let_def or_raise_def deliver_event_def sent_send_to)

lemma error_routing:
  assumes "lookup_channel env (kw_get kwargs ''channel'' PNone) = Inr channel"
    and "truthy (if truthy channel then channel else get_owner env)"
    and "\<forall>msg. target_send env (if truthy channel then channel else get_owner env) msg = None"
    and "py_getattr (kw_get kwargs ''exception'' PNone) ''__traceback__'' = Inr tb"
    and "(if truthy channel
          then mention_of channel [''guild'', ''owner''] (kw_get kwargs ''critical'' PNone)
          else mention_of (get_owner env) [] (kw_get kwargs ''critical'' PNone)) = Inr content"
  shows "(sent (snd (handle_error_log self env message args kwargs w)) = sent w)
           = is_console_only self kwargs True"
  using assms
  by (auto simp add: handle_error_log_def Let_def or_raise_def generate_log_embed_error
      send_error_log_def send_to_def split: if_splits)


lemma generate_log_embed_generic_levels:
  "generate_log_embed message ''info'' = Inr (InfoEmbed message)"
  "generate_log_embed message ''debug'' = Inr (DebugEmbed message)"
  "generate_log_embed message ''warning'' = Inr (WarningEmbed message)"
  by (simp_all add: generate_log_embed_def py_lower_level_names)

lemma is_console_only_pop:
  "is_console_only self (kwargs(''event_type'' := None)) b = is_console_only self kwargs b"
  by (simp add: is_console_only_def kw_get_def)

lemma queue_routing_generic:
  assumes "send_queue w = d # pending"
    and "dl_level d = ''info'' \<or> dl_level d = ''debug'' \<or> dl_level d = ''warning''"
    and "dl_kwargs d ''level_'' = None" "dl_kwargs d ''console'' = None"
    and "lookup_channel env (kw_get (dl_kwargs d) ''channel'' PNone) = Inr channel"
    and "truthy (if truthy channel then channel else get_owner env)"
    and "\<forall>msg. target_send env (if truthy channel then channel else get_owner env) msg = None"
  shows "\<exists>r. handle_queue_log self env w = Some r \<and>
             (sent (snd r) = sent w) = spec_console_only (send self) (dl_kwargs d) (dl_level d)"
proof -
  let ?w1 = "w\<lparr>send_queue := pending\<rparr>"
  have s1: "sent ?w1 = sent w" by simp
  have g: "(sent (snd (call_handle_generic_log self env (dl_message d) lvl console
                          (dl_args d) (dl_kwargs d) ?w1)) = sent w)
             = is_console_only self (dl_kwargs d) False"
    if "generate_log_embed (dl_message d) lvl = Inr e0" for lvl console e0
    using call_generic_routing [OF assms(3,4,5,6,7) that, of self console "dl_args d" ?w1] s1
    by simp
  have ne: "dl_level d \<noteq> ''error''" using assms(2) by auto
  show ?thesis
    using assms(1,2) g [OF generate_log_embed_generic_levels(1)]
      g [OF generate_log_embed_generic_levels(2)] g [OF generate_log_embed_generic_levels(3)]
      spec_console_only_generic [OF ne, of self "dl_kwargs d"]
    by (auto simp: handle_queue_log_def Let_def)
qed

lemma queue_routing_error:
  assumes "send_queue w = d # pending"
    and "dl_level d = ''error''"
    and "lookup_channel env (kw_get (dl_kwargs d) ''channel'' PNone) = Inr channel"
    and "truthy (if truthy channel then channel else get_owner env)"
    and "\<forall>msg. target_send env (if truthy channel then channel else get_owner env) msg = None"
    and "py_getattr (kw_get (dl_kwargs d) ''exception'' PNone) ''__traceback__'' = Inr tb"
    and "(if truthy channel
          then mention_of channel [''guild'', ''owner''] (kw_get (dl_kwargs d) ''critical'' PNone)
          else mention_of (get_owner env) [] (kw_get (dl_kwargs d) ''critical'' PNone))
         = Inr content"
  shows "\<exists>r. handle_queue_log self env w = Some r \<and>
             (sent (snd r) = sent w) = spec_console_only (send self) (dl_kwargs d) ''error''"
proof -
  let ?w1 = "w\<lparr>send_queue := pending\<rparr>"
  have s1: "sent ?w1 = sent w" by simp
  have "(sent (snd (handle_error_log self env (dl_message d) (dl_args d) (dl_kwargs d) ?w1))
           = sent w) = is_console_only self (dl_kwargs d) True"
    using error_routing [OF assms(3-7), of self "dl_message d" "dl_args d" ?w1] s1 by simp
  then show ?thesis
    using assms(1,2) spec_console_only_error [of self "dl_kwargs d"]
    by (simp add: handle_queue_log_def Let_def)
qed

lemma queue_routing_event:
  assumes "send_queue w = d # pending"
    and "dl_level d = ''event''"
    and "lookup_channel env (kw_get (dl_kwargs d) ''channel'' PNone) = Inr channel"
    and "truthy (if truthy channel then channel else get_owner env)"
    and "\<forall>msg. target_send env (if truthy channel then channel else get_owner env) msg = None"
    and "truthy (kw_get (dl_kwargs d) ''event_type'' PNone)"
    and "fst (generate_event_data self env (kw_get (dl_kwargs d) ''event_type'' PNone)
                (dl_args d) ((dl_kwargs d)(''event_type'' := None))
                (w\<lparr>send_queue := pending\<rparr>)) = Inr (summary, Some e0)"
    and "truthy summary"
  shows "\<exists>r. handle_queue_log self env w = Some r \<and>
             (sent (snd r) = sent w) = spec_console_only (send self) (dl_kwargs d) ''event''"
proof -
  let ?w1 = "w\<lparr>send_queue := pending\<rparr>"
  let ?kw = "(dl_kwargs d)(''event_type'' := None)"
  have s1: "sent ?w1 = sent w" by simp
  have ch: "kw_get ?kw ''channel'' PNone = kw_get (dl_kwargs d) ''channel'' PNone"
    by (simp add: kw_get_def)
  have "(sent (snd (handle_event_log self env (kw_get (dl_kwargs d) ''event_type'' PNone)
                      (dl_args d) ?kw ?w1)) = sent w)
          = is_console_only self ?kw False"
    using event_routing [of env ?kw channel self "kw_get (dl_kwargs d) ''event_type'' PNone"
        "dl_args d" ?w1 summary e0] assms(3,4,5,7,8) s1
    unfolding ch by simp
  then show ?thesis
    using assms(1,2,6) spec_console_only_generic [of "''event''" self "dl_kwargs d"]
    by (simp add: handle_queue_log_def Let_def is_console_only_pop)
qed

text \<open>
  C8: the routing decision is console-only iff the logger's global \<open>send\<close> flag is
  falsy or the effective \<open>send\<close> option is falsy, the effective option being the
  caller's \<open>send\<close> when the bag has one and the default otherwise. The generic handler
  (info, debug, warning) and the event handler decide with the default \<open>False\<close>, the
  error handler with the default \<open>True\<close>; a record so marked gets its console line
  and no delivery. Level by level, whenever a delivery is possible (the target
  resolves, the send goes through and the record reaches the sender), a call of the
  public method without a queue, and the handling of a queued record of that level,
  deliver nothing iff the record is console-only in the specification's words, with
  the default false for info, debug, warning and event and true for error.
\<close>

theorem console_only_routing:
  "is_console_only self kwargs is_error =
     (\<not> truthy (send self) \<or>
      \<not> truthy (case kwargs ''send'' of Some v \<Rightarrow> v | None \<Rightarrow> PBool is_error)) \<and>
   ((\<not> truthy (send self) \<or>
     \<not> truthy (case kwargs ''send'' of Some v \<Rightarrow> v | None \<Rightarrow> PBool False)) \<longrightarrow>
      handle_generic_log self env message lvl console args kwargs w =
        (Inr (), console_log console (Text message) w) \<and>
      sent (snd (handle_event_log self env event_type args kwargs w)) = sent w) \<and>
   ((\<not> truthy (send self) \<or>
     \<not> truthy (case kwargs ''send'' of Some v \<Rightarrow> v | None \<Rightarrow> PBool True)) \<longrightarrow>
      handle_error_log self env message args kwargs w =
        (Inr (), console_log console_error (Text message) w)) \<and>
   (\<not> truthy (queue_wait self) \<and>
    lookup_channel env (kw_get kwargs ''channel'' PNone) = Inr channel \<and>
    target = (if truthy channel then channel else get_owner env) \<and> truthy target \<and>
    (\<forall>msg. target_send env target msg = None) \<longrightarrow>
      (kwargs ''level_'' = None \<and> kwargs ''console'' = None \<longrightarrow>
         ((sent (snd (info self env message args kwargs w)) = sent w)
            = spec_console_only (send self) kwargs ''info'') \<and>
         ((sent (snd (warning self env message args kwargs w)) = sent w)
            = spec_console_only (send self) kwargs ''warning'') \<and>
         (debug_mode self \<longrightarrow>
            (sent (snd (debug self env message args kwargs w)) = sent w)
              = spec_console_only (send self) kwargs ''debug'')) \<and>
      (fst (generate_event_data self env event_type args kwargs w) = Inr (summary, Some e0) \<and>
       truthy summary \<longrightarrow>
         (sent (snd (event self env event_type args kwargs w)) = sent w)
           = spec_console_only (send self) kwargs ''event'') \<and>
      (py_getattr (kw_get kwargs ''exception'' PNone) ''__traceback__'' = Inr tb \<and>
       (if truthy channel
        then mention_of channel [''guild'', ''owner''] (kw_get kwargs ''critical'' PNone)
        else mention_of target [] (kw_get kwargs ''critical'' PNone)) = Inr content \<longrightarrow>
         (sent (snd (error self env message args kwargs w)) = sent w)
           = spec_console_only (send self) kwargs ''error'')) \<and>
   (send_queue qw = d # pending \<and>
    lookup_channel env (kw_get (dl_kwargs d) ''channel'' PNone) = Inr qchannel \<and>
    qtarget = (if truthy qchannel then qchannel else get_owner env) \<and> truthy qtarget \<and>
    (\<forall>msg. target_send env qtarget msg = None) \<longrightarrow>
      ((dl_level d = ''info'' \<or> dl_level d = ''debug'' \<or> dl_level d = ''warning'') \<and>
       dl_kwargs d ''level_'' = None \<and> dl_kwargs d ''console'' = None \<longrightarrow>
         (\<exists>r. handle_queue_log self env qw = Some r \<and>
              (sent (snd r) = sent qw)
                = spec_console_only (send self) (dl_kwargs d) (dl_level d))) \<and>
      (dl_level d = ''event'' \<and> truthy (kw_get (dl_kwargs d) ''event_type'' PNone) \<and>
       fst (generate_event_data self env (kw_get (dl_kwargs d) ''event_type'' PNone)
              (dl_args d) ((dl_kwargs d)(''event_type'' := None))
              (qw\<lparr>send_queue := pending\<rparr>)) = Inr (qsummary, Some qe0) \<and>
       truthy qsummary \<longrightarrow>
         (\<exists>r. handle_queue_log self env qw = Some r \<and>
              (sent (snd r) = sent qw)
                = spec_console_only (send self) (dl_kwargs d) ''event'')) \<and>
      (dl_level d = ''error'' \<and>
       py_getattr (kw_get (dl_kwargs d) ''exception'' PNone) ''__traceback__'' = Inr qtb \<and>
       (if truthy qchannel
        then mention_of qchannel [''guild'', ''owner'']
               (kw_get (dl_kwargs d) ''critical'' PNone)
        else mention_of qtarget [] (kw_get (dl_kwargs d) ''critical'' PNone))
         = Inr qcontent \<longrightarrow>
         (\<exists>r. handle_queue_log self env qw = Some r \<and>
              (sent (snd r) = sent qw)
                = spec_console_only (send self) (dl_kwargs d) ''error'')))"
proof (intro conjI)
  show "is_console_only self kwargs is_error =
     (\<not> truthy (send self) \<or>
      \<not> truthy (case kwargs ''send'' of Some v \<Rightarrow> v | None \<Rightarrow> PBool is_error))"
    by (rule is_console_only_iff)
  show "(\<not> truthy (send self) \<or>
     \<not> truthy (case kwargs ''send'' of Some v \<Rightarrow> v | None \<Rightarrow> PBool False)) \<longrightarrow>
      handle_generic_log self env message lvl console args kwargs w =
        (Inr (), console_log console (Text message) w) \<and>
      sent (snd (handle_event_log self env event_type args kwargs w)) = sent w"
    using is_console_only_iff [of self kwargs False]
      generic_console_only [of self kwargs env message lvl console args w]
      event_console_only [of self kwargs env event_type args w]
    by blast
  show "(\<not> truthy (send self) \<or>
     \<not> truthy (case kwargs ''send'' of Some v \<Rightarrow> v | None \<Rightarrow> PBool True)) \<longrightarrow>
      handle_error_log self env message args kwargs w =
        (Inr (), console_log console_error (Text message) w)"
    using is_console_only_iff [of self kwargs True]
      error_console_only [of self kwargs env message args w]
    by blast
  show "\<not> truthy (queue_wait self) \<and>
    lookup_channel env (kw_get kwargs ''channel'' PNone) = Inr channel \<and>
    target = (if truthy channel then channel else get_owner env) \<and> truthy target \<and>
    (\<forall>msg. target_send env target msg = None) \<longrightarrow>
      (kwargs ''level_'' = None \<and> kwargs ''console'' = None \<longrightarrow>
         ((sent (snd (info self env message args kwargs w)) = sent w)
            = spec_console_only (send self) kwargs ''info'') \<and>
         ((sent (snd (warning self env message args kwargs w)) = sent w)
            = spec_console_only (send self) kwargs ''warning'') \<and>
         (debug_mode self \<longrightarrow>
            (sent (snd (debug self env message args kwargs w)) = sent w)
              = spec_console_only (send self) kwargs ''debug'')) \<and>
      (fst (generate_event_data self env event_type args kwargs w) = Inr (summary, Some e0) \<and>
       truthy summary \<longrightarrow>
         (sent (snd (event self env event_type args kwargs w)) = sent w)
           = spec_console_only (send self) kwargs ''event'') \<and>
      (py_getattr (kw_get kwargs ''exception'' PNone) ''__traceback__'' = Inr tb \<and>
       (if truthy channel
        then mention_of channel [''guild'', ''owner''] (kw_get kwargs ''critical'' PNone)
        else mention_of target [] (kw_get kwargs ''critical'' PNone)) = Inr content \<longrightarrow>
         (sent (snd (error self env message args kwargs w)) = sent w)
           = spec_console_only (send self) kwargs ''error'')"
  proof (intro impI, elim conjE)
    assume nq: "\<not> truthy (queue_wait self)"
      and ch: "lookup_channel env (kw_get kwargs ''channel'' PNone) = Inr channel"
      and tg: "target = (if truthy channel then channel else get_owner env)"
      and tt: "truthy target"
      and ok: "\<forall>msg. target_send env target msg = None"
    have tt': "truthy (if truthy channel then channel else get_owner env)"
      using tg tt by simp
    have ok': "\<forall>msg. target_send env (if truthy channel then channel else get_owner env) msg
                 = None"
      using tg ok by simp
    have generic: "(sent (snd (handle_generic_log self env message l c args kwargs w)) = sent w)
        = is_console_only self kwargs False"
      if "generate_log_embed message l = Inr e" for l c e
      using generic_routing [OF ch tt' ok' that] by simp
    have gen: "kwargs ''level_'' = None \<and> kwargs ''console'' = None \<longrightarrow>
         ((sent (snd (info self env message args kwargs w)) = sent w)
            = spec_console_only (send self) kwargs ''info'') \<and>
         ((sent (snd (warning self env message args kwargs w)) = sent w)
            = spec_console_only (send self) kwargs ''warning'') \<and>
         (debug_mode self \<longrightarrow>
            (sent (snd (debug self env message args kwargs w)) = sent w)
              = spec_console_only (send self) kwargs ''debug'')"
      using nq generic [OF generate_log_embed_generic_levels(1)]
        generic [OF generate_log_embed_generic_levels(2)]
        generic [OF generate_log_embed_generic_levels(3)]
        spec_console_only_generic [of "''info''" self kwargs]
        spec_console_only_generic [of "''warning''" self kwargs]
        spec_console_only_generic [of "''debug''" self kwargs]
      by (simp add: info_def warning_def debug_def call_handle_generic_log_def)
    have ev: "fst (generate_event_data self env event_type args kwargs w)
                = Inr (summary, Some e0) \<and> truthy summary \<longrightarrow>
         (sent (snd (event self env event_type args kwargs w)) = sent w)
           = spec_console_only (send self) kwargs ''event''"
      using nq event_routing [OF ch tt' ok', of self event_type args w summary e0]
        spec_console_only_generic [of "''event''" self kwargs]
      by (simp add: event_def)
    have er: "py_getattr (kw_get kwargs ''exception'' PNone) ''__traceback__'' = Inr tb \<and>
       (if truthy channel
        then mention_of channel [''guild'', ''owner''] (kw_get kwargs ''critical'' PNone)
        else mention_of target [] (kw_get kwargs ''critical'' PNone)) = Inr content \<longrightarrow>
         (sent (snd (error self env message args kwargs w)) = sent w)
           = spec_console_only (send self) kwargs ''error''"
    proof
      assume h: "py_getattr (kw_get kwargs ''exception'' PNone) ''__traceback__'' = Inr tb \<and>
       (if truthy channel
        then mention_of channel [''guild'', ''owner''] (kw_get kwargs ''critical'' PNone)
        else mention_of target [] (kw_get kwargs ''critical'' PNone)) = Inr content"
      then have c: "(if truthy channel
          then mention_of channel [''guild'', ''owner''] (kw_get kwargs ''critical'' PNone)
          else mention_of (get_owner env) [] (kw_get kwargs ''critical'' PNone)) = Inr content"
        using tg by (simp split: if_splits)
      from h have t: "py_getattr (kw_get kwargs ''exception'' PNone) ''__traceback__'' = Inr tb"
        by simp
      show "(sent (snd (error self env message args kwargs w)) = sent w)
           = spec_console_only (send self) kwargs ''error''"
        using nq error_routing [OF ch tt' ok' t c, of self message args w]
          spec_console_only_error [of self kwargs]
        by (simp add: error_def)
    qed
    from gen ev er show "(kwargs ''level_'' = None \<and> kwargs ''console'' = None \<longrightarrow>
         ((sent (snd (info self env message args kwargs w)) = sent w)
            = spec_console_only (send self) kwargs ''info'') \<and>
         ((sent (snd (warning self env message args kwargs w)) = sent w)
            = spec_console_only (send self) kwargs ''warning'') \<and>
         (debug_mode self \<longrightarrow>
            (sent (snd (debug self env message args kwargs w)) = sent w)
              = spec_console_only (send self) kwargs ''debug'')) \<and>
      (fst (generate_event_data self env event_type args kwargs w) = Inr (summary, Some e0) \<and>
       truthy summary \<longrightarrow>
         (sent (snd (event self env event_type args kwargs w)) = sent w)
           = spec_console_only (send self) kwargs ''event'') \<and>
      (py_getattr (kw_get kwargs ''exception'' PNone) ''__traceback__'' = Inr tb \<and>
       (if truthy channel
        then mention_of channel [''guild'', ''owner''] (kw_get kwargs ''critical'' PNone)
        else mention_of target [] (kw_get kwargs ''critical'' PNone)) = Inr content \<longrightarrow>
         (sent (snd (error self env message args kwargs w)) = sent w)
           = spec_console_only (send self) kwargs ''error'')"
      by blast
  qed
  show "send_queue qw = d # pending \<and>
    lookup_channel env (kw_get (dl_kwargs d) ''channel'' PNone) = Inr qchannel \<and>
    qtarget = (if truthy qchannel then qchannel else get_owner env) \<and> truthy qtarget \<and>
    (\<forall>msg. target_send env qtarget msg = None) \<longrightarrow>
      ((dl_level d = ''info'' \<or> dl_level d = ''debug'' \<or> dl_level d = ''warning'') \<and>
       dl_kwargs d ''level_'' = None \<and> dl_kwargs d ''console'' = None \<longrightarrow>
         (\<exists>r. handle_queue_log self env qw = Some r \<and>
              (sent (snd r) = sent qw)
                = spec_console_only (send self) (dl_kwargs d) (dl_level d))) \<and>
      (dl_level d = ''event'' \<and> truthy (kw_get (dl_kwargs d) ''event_type'' PNone) \<and>
       fst (generate_event_data self env (kw_get (dl_kwargs d) ''event_type'' PNone)
              (dl_args d) ((dl_kwargs d)(''event_type'' := None))
              (qw\<lparr>send_queue := pending\<rparr>)) = Inr (qsummary, Some qe0) \<and>
       truthy qsummary \<longrightarrow>
         (\<exists>r. handle_queue_log self env qw = Some r \<and>
              (sent (snd r) = sent qw)
                = spec_console_only (send self) (dl_kwargs d) ''event'')) \<and>
      (dl_level d = ''error'' \<and>
       py_getattr (kw_get (dl_kwargs d) ''exception'' PNone) ''__traceback__'' = Inr qtb \<and>
       (if truthy qchannel
        then mention_of qchannel [''guild'', ''owner'']
               (kw_get (dl_kwargs d) ''critical'' PNone)
        else mention_of qtarget [] (kw_get (dl_kwargs d) ''critical'' PNone))
         = Inr qcontent \<longrightarrow>
         (\<exists>r. handle_queue_log self env qw = Some r \<and>
              (sent (snd r) = sent qw)
                = spec_console_only (send self) (dl_kwargs d) ''error''))"
  proof (intro impI, elim conjE)
    assume q: "send_queue qw = d # pending"
      and ch: "lookup_channel env (kw_get (dl_kwargs d) ''channel'' PNone) = Inr qchannel"
      and tg: "qtarget = (if truthy qchannel then qchannel else get_owner env)"
      and tt: "truthy qtarget"
      and ok: "\<forall>msg. target_send env qtarget msg = None"
    have tt': "truthy (if truthy qchannel then qchannel else get_owner env)"
      using tg tt by simp
    have ok': "\<forall>msg. target_send env (if truthy qchannel then qchannel else get_owner env) msg
                 = None"
      using tg ok by simp
    have gen: "(dl_level d = ''info'' \<or> dl_level d = ''debug'' \<or> dl_level d = ''warning'') \<and>
       dl_kwargs d ''level_'' = None \<and> dl_kwargs d ''console'' = None \<longrightarrow>
         (\<exists>r. handle_queue_log self env qw = Some r \<and>
              (sent (snd r) = sent qw)
                = spec_console_only (send self) (dl_kwargs d) (dl_level d))"
      using queue_routing_generic [OF q _ _ _ ch tt' ok', of self] by blast
    have ev: "dl_level d = ''event'' \<and> truthy (kw_get (dl_kwargs d) ''event_type'' PNone) \<and>
       fst (generate_event_data self env (kw_get (dl_kwargs d) ''event_type'' PNone)
              (dl_args d) ((dl_kwargs d)(''event_type'' := None))
              (qw\<lparr>send_queue := pending\<rparr>)) = Inr (qsummary, Some qe0) \<and>
       truthy qsummary \<longrightarrow>
         (\<exists>r. handle_queue_log self env qw = Some r \<and>
              (sent (snd r) = sent qw)
                = spec_console_only (send self) (dl_kwargs d) ''event'')"
      using queue_routing_event [OF q _ ch tt' ok', of self qsummary qe0] by blast
    have er: "dl_level d = ''error'' \<and>
       py_getattr (kw_get (dl_kwargs d) ''exception'' PNone) ''__traceback__'' = Inr qtb \<and>
       (if truthy qchannel
        then mention_of qchannel [''guild'', ''owner'']
               (kw_get (dl_kwargs d) ''critical'' PNone)
        else mention_of qtarget [] (kw_get (dl_kwargs d) ''critical'' PNone))
         = Inr qcontent \<longrightarrow>
         (\<exists>r. handle_queue_log self env qw = Some r \<and>
              (sent (snd r) = sent qw)
                = spec_console_only (send self) (dl_kwargs d) ''error'')"
    proof (intro impI, elim conjE)
      assume lv: "dl_level d = ''error''"
        and t: "py_getattr (kw_get (dl_kwargs d) ''exception'' PNone) ''__traceback__''
                 = Inr qtb"
        and c0: "(if truthy qchannel
        then mention_of qchannel [''guild'', ''owner'']
               (kw_get (dl_kwargs d) ''critical'' PNone)
        else mention_of qtarget [] (kw_get (dl_kwargs d) ''critical'' PNone))
         = Inr qcontent"
      have c: "(if truthy qchannel
          then mention_of qchannel [''guild'', ''owner'']
                 (kw_get (dl_kwargs d) ''critical'' PNone)
          else mention_of (get_owner env) [] (kw_get (dl_kwargs d) ''critical'' PNone))
         = Inr qcontent"
        using c0 tg by (simp split: if_splits)
      show "\<exists>r. handle_queue_log self env qw = Some r \<and>
              (sent (snd r) = sent qw)
                = spec_console_only (send self) (dl_kwargs d) ''error''"
        using queue_routing_error [OF q lv ch tt' ok' t c] .
    qed
    from gen ev er show "((dl_level d = ''info'' \<or> dl_level d = ''debug'' \<or> dl_level d = ''warning'') \<and>
       dl_kwargs d ''level_'' = None \<and> dl_kwargs d ''console'' = None \<longrightarrow>
         (\<exists>r. handle_queue_log self env qw = Some r \<and>
              (sent (snd r) = sent qw)
                = spec_console_only (send self) (dl_kwargs d) (dl_level d))) \<and>
      (dl_level d = ''event'' \<and> truthy (kw_get (dl_kwargs d) ''event_type'' PNone) \<and>
       fst (generate_event_data self env (kw_get (dl_kwargs d) ''event_type'' PNone)
              (dl_args d) ((dl_kwargs d)(''event_type'' := None))
              (qw\<lparr>send_queue := pending\<rparr>)) = Inr (qsummary, Some qe0) \<and>
       truthy qsummary \<longrightarrow>
         (\<exists>r. handle_queue_log self env qw = Some r \<and>
              (sent (snd r) = sent qw)
                = spec_console_only (send self) (dl_kwargs d) ''event'')) \<and>
      (dl_level d = ''error'' \<and>
       py_getattr (kw_get (dl_kwargs d) ''exception'' PNone) ''__traceback__'' = Inr qtb \<and>
       (if truthy qchannel
        then mention_of qchannel [''guild'', ''owner'']
               (kw_get (dl_kwargs d) ''critical'' PNone)
        else mention_of qtarget [] (kw_get (dl_kwargs d) ''critical'' PNone))
         = Inr qcontent \<longrightarrow>
         (\<exists>r. handle_queue_log self env qw = Some r \<and>
              (sent (snd r) = sent qw)
                = spec_console_only (send self) (dl_kwargs d) ''error''))"
      by blast
  qed
qed

theorem console_only_routing_witness:
  "is_console_only (sample_logger PNone) Map.empty False \<and>
   \<not> is_console_only (sample_logger PNone) Map.empty True \<and>
   \<not> is_console_only (sample_logger PNone) [''send'' \<mapsto> PInt 1] False \<and>
   is_console_only (sample_logger PNone) [''send'' \<mapsto> PNone] True \<and>
   handle_generic_log (sample_logger PNone) (sample_env owner_user) (PStr ''up'') ''info''
       console_info [] Map.empty fresh_world =
     (Inr (), console_log console_info (Text (PStr ''up'')) fresh_world) \<and>
   handle_error_log (sample_logger PNone) (sample_env owner_user) (PStr ''down'') []
       [''send'' \<mapsto> PBool False] fresh_world =
     (Inr (), console_log console_error (Text (PStr ''down'')) fresh_world) \<and>
   spec_console_only (PBool True) Map.empty ''info'' \<and>
   sent (snd (info (sample_logger PNone) (sample_env owner_user) (PStr ''up'') []
                Map.empty fresh_world)) = sent fresh_world \<and>
   \<not> spec_console_only (PBool True) [''send'' \<mapsto> PBool True] ''info'' \<and>
   sent (snd (info (sample_logger PNone) (sample_env owner_user) (PStr ''up'') []
                [''send'' \<mapsto> PBool True] fresh_world)) \<noteq> sent fresh_world \<and>
   \<not> spec_console_only (PBool True) [''exception'' \<mapsto> failure] ''error'' \<and>
   sent (snd (error (sample_logger PNone) (sample_env owner_user) (PStr ''down'') []
                [''exception'' \<mapsto> failure] fresh_world)) \<noteq> sent fresh_world \<and>
   spec_console_only (PBool True) [''exception'' \<mapsto> failure, ''send'' \<mapsto> PBool False]
     ''error'' \<and>
   sent (snd (error (sample_logger PNone) (sample_env owner_user) (PStr ''down'') []
                [''exception'' \<mapsto> failure, ''send'' \<mapsto> PBool False] fresh_world))
     = sent fresh_world \<and>
   (\<exists>r. handle_queue_log (sample_logger (PInt 5)) (sample_env owner_user)
          (fresh_world\<lparr>send_queue :=
             [\<lparr>dl_level = ''error'', dl_message = PStr ''down'', dl_args = [],
               dl_kwargs = [''exception'' \<mapsto> failure, ''time'' \<mapsto> noon]\<rparr>]\<rparr>) = Some r \<and>
        sent (snd r) \<noteq> [])"
  using console_only_routing
    [where self = "sample_logger PNone" and kwargs = Map.empty and is_error = False
       and env = "sample_env owner_user" and message = "PStr ''up''" and lvl = "''info''"
       and console = console_info and args = "[]" and w = fresh_world
       and channel = PNone and target = owner_user]
    console_only_routing
    [where self = "sample_logger PNone" and kwargs = Map.empty and is_error = True]
    console_only_routing
    [where self = "sample_logger PNone" and kwargs = "[''send'' \<mapsto> PInt 1]"
       and is_error = False]
    console_only_routing
    [where self = "sample_logger PNone" and kwargs = "[''send'' \<mapsto> PNone]"
       and is_error = True]
    console_only_routing
    [where self = "sample_logger PNone" and kwargs = "[''send'' \<mapsto> PBool False]"
       and is_error = True and env = "sample_env owner_user" and message = "PStr ''down''"
       and args = "[]" and w = fresh_world]
    console_only_routing
    [where self = "sample_logger PNone" and kwargs = "[''send'' \<mapsto> PBool True]"
       and env = "sample_env owner_user" and message = "PStr ''up''"
       and args = "[]" and w = fresh_world and channel = PNone and target = owner_user]
    console_only_routing
    [where self = "sample_logger PNone" and kwargs = "[''exception'' \<mapsto> failure]"
       and env = "sample_env owner_user" and message = "PStr ''down''"
       and args = "[]" and w = fresh_world and channel = PNone and target = owner_user
       and tb = PNone and content = PNone]
    console_only_routing
    [where self = "sample_logger PNone"
       and kwargs = "[''exception'' \<mapsto> failure, ''send'' \<mapsto> PBool False]"
       and env = "sample_env owner_user" and message = "PStr ''down''"
       and args = "[]" and w = fresh_world and channel = PNone and target = owner_user
       and tb = PNone and content = PNone]
    console_only_routing
    [where self = "sample_logger (PInt 5)" and env = "sample_env owner_user"
       and qw = "fresh_world\<lparr>send_queue :=
             [\<lparr>dl_level = ''error'', dl_message = PStr ''down'', dl_args = [],
               dl_kwargs = [''exception'' \<mapsto> failure, ''time'' \<mapsto> noon]\<rparr>]\<rparr>"
       and d = "\<lparr>dl_level = ''error'', dl_message = PStr ''down'', dl_args = [],
               dl_kwargs = [''exception'' \<mapsto> failure, ''time'' \<mapsto> noon]\<rparr>"
       and pending = "[]" and qchannel = PNone and qtarget = owner_user
       and qtb = PNone and qcontent = PNone]
  by (simp add: sample_logger_def sample_env_def owner_user_def failure_def fresh_world_def
      lookup_channel_def kw_get_def mention_of_def spec_console_only_def effective_send_def
      level_default_send_def)

section \<open>The diff engine\<close>

lemma map_of_dict_set: "map_of (dict_set d k v) = (map_of d)(k \<mapsto> v)"
  by (induction d k v rule: dict_set.induct) auto

lemma get_object_diff_loop_lookup:
  "map_of (get_object_diff_loop before after attrs result) attr =
     (if attr \<in> set attrs \<and> truthy (getattr_default after attr PNone) \<and>
         truthy (getattr_default before attr PNone) \<and>
         \<not> py_eq (getattr_default before attr PNone) (getattr_default after attr PNone)
      then Some (getattr_default before attr PNone, getattr_default after attr PNone)
      else map_of result attr)"
  by (induction attrs arbitrary: result) (auto simp: Let_def map_of_dict_set)

lemma getattr_default_missing:
  "py_getattr obj attr = Inl e \<Longrightarrow> getattr_default obj attr dflt = dflt"
  by (simp add: getattr_default_def)

text \<open>
  C4: an attribute has an entry in the diff iff it is in the list checked, its
  after-value is truthy, its before-value is truthy and the two are unequal; the entry
  then holds both values. An attribute that either snapshot lacks reads as \<open>None\<close>
  and has no entry. \<open>get_object_diff\<close> returns a diff on every input: it has no
  failing branch.
\<close>

theorem get_object_diff_inclusion:
  "map_of (get_object_diff before after attrs) attr =
     (if attr \<in> set attrs \<and> truthy (getattr_default after attr PNone) \<and>
         truthy (getattr_default before attr PNone) \<and>
         \<not> py_eq (getattr_default before attr PNone) (getattr_default after attr PNone)
      then Some (getattr_default before attr PNone, getattr_default after attr PNone)
      else None) \<and>
   (((\<exists>e. py_getattr before attr = Inl e) \<or> (\<exists>e. py_getattr after attr = Inl e)) \<longrightarrow>
      map_of (get_object_diff before after attrs) attr = None)"
proof -
  have lookup: "map_of (get_object_diff before after attrs) attr =
     (if attr \<in> set attrs \<and> truthy (getattr_default after attr PNone) \<and>
         truthy (getattr_default before attr PNone) \<and>
         \<not> py_eq (getattr_default before attr PNone) (getattr_default after attr PNone)
      then Some (getattr_default before attr PNone, getattr_default after attr PNone)
      else None)"
    by (simp add: get_object_diff_def get_object_diff_loop_lookup)
  have missing: "map_of (get_object_diff before after attrs) attr = None"
    if "(\<exists>e. py_getattr before attr = Inl e) \<or> (\<exists>e. py_getattr after attr = Inl e)"
  proof -
    from that have "getattr_default before attr PNone = PNone \<or>
        getattr_default after attr PNone = PNone"
      by (auto simp: getattr_default_missing)
    then show ?thesis
      unfolding lookup by auto
  qed
  from lookup missing show ?thesis by blast
qed

theorem get_object_diff_inclusion_witness:
  "get_object_diff
     (PObj 5 ''A'' ''<Guild id=5>'' [(''name'', PStr ''A''), (''roles'', PList [])])
     (PObj 5 ''B'' ''<Guild id=5>''
        [(''name'', PStr ''B''), (''roles'', PList [PInt 1]), (''icon'', PStr ''i.png'')])
     [''name'', ''roles'', ''icon''] = [(''name'', PStr ''A'', PStr ''B'')] \<and>
   map_of (get_object_diff
     (PObj 5 ''A'' ''<Guild id=5>'' [(''name'', PStr ''A''), (''roles'', PList [])])
     (PObj 5 ''B'' ''<Guild id=5>''
        [(''name'', PStr ''B''), (''roles'', PList [PInt 1]), (''icon'', PStr ''i.png'')])
     [''name'', ''roles'', ''icon'']) ''icon'' = None"
  using get_object_diff_inclusion
    [of "PObj 5 ''A'' ''<Guild id=5>'' [(''name'', PStr ''A''), (''roles'', PList [])]"
        "PObj 5 ''B'' ''<Guild id=5>''
           [(''name'', PStr ''B''), (''roles'', PList [PInt 1]), (''icon'', PStr ''i.png'')]"
        "[''name'', ''roles'', ''icon'']" "''icon''"]
  by (simp add: get_object_diff_def getattr_default_def)

section \<open>The fields of a diff\<close>

lemma py_eq_sym: "hashable x \<or> hashable y \<Longrightarrow> py_eq x y = py_eq y x"
  by (cases x; cases y) auto

lemma py_eq_trans: "hashable y \<Longrightarrow> py_eq x y \<Longrightarrow> py_eq y z \<Longrightarrow> py_eq x z"
  by (cases x; cases y; cases z) (auto split: if_splits)

lemma py_eq_hashable: "py_eq x y \<Longrightarrow> hashable y \<Longrightarrow> hashable x"
  by (cases x; cases y) auto

lemma py_member_Nil [simp]: "py_member x [] = False"
  by (simp add: py_member_def)

lemma py_member_Cons [simp]: "py_member x (y # ys) = (py_eq x y \<or> py_member x ys)"
  by (simp add: py_member_def)

lemma py_member_append [simp]: "py_member x (xs @ ys) = (py_member x xs \<or> py_member x ys)"
  by (simp add: py_member_def list_ex_iff) blast

lemma py_member_iff: "py_member x xs = (\<exists>y \<in> set xs. py_eq x y)"
  by (simp add: py_member_def list_ex_iff)

lemma py_member_cong:
  assumes "py_eq x a" "hashable a"
  shows "py_member a xs = py_member x xs"
proof -
  have hx: "hashable x" using assms py_eq_hashable by blast
  have ax: "py_eq a x" using assms py_eq_sym by blast
  show ?thesis
    unfolding py_member_iff
    using py_eq_trans [OF assms(2) assms(1)] py_eq_trans [OF hx ax] by blast
qed

lemma py_member_set_add:
  assumes "hashable y"
  shows "py_member x (set_add s y) = (py_member x s \<or> py_eq x y)"
proof (cases "py_member y s")
  case True
  then have "py_eq x y \<Longrightarrow> py_member x s"
    using py_member_cong [of x y s] assms by simp
  with True show ?thesis by (auto simp: set_add_def)
next
  case False
  then show ?thesis by (simp add: set_add_def)
qed

lemma py_member_foldl_set_add:
  "list_all hashable xs \<Longrightarrow>
   py_member x (foldl set_add acc xs) = (py_member x acc \<or> py_member x xs)"
  by (induction xs arbitrary: acc) (auto simp: py_member_set_add)

lemma hashable_foldl_set_add:
  "list_all hashable xs \<Longrightarrow> list_all hashable acc \<Longrightarrow>
   list_all hashable (foldl set_add acc xs)"
  by (induction xs arbitrary: acc) (auto simp: set_add_def)

lemma py_distinct_snoc:
  "hashable x \<Longrightarrow> py_distinct (xs @ [x]) = (py_distinct xs \<and> \<not> py_member x xs)"
proof (induction xs)
  case Nil
  then show ?case by simp
next
  case (Cons a xs)
  then show ?case using py_eq_sym [of a x] by auto
qed

lemma py_distinct_foldl_set_add:
  "list_all hashable xs \<Longrightarrow> py_distinct acc \<Longrightarrow> py_distinct (foldl set_add acc xs)"
  by (induction xs arbitrary: acc) (auto simp: set_add_def py_distinct_snoc)

lemma py_member_filter:
  "py_member x (filter P xs) \<Longrightarrow> py_member x xs"
  by (auto simp: py_member_iff)

lemma py_distinct_filter: "py_distinct xs \<Longrightarrow> py_distinct (filter P xs)"
  by (induction xs) (auto dest: py_member_filter)

lemma py_distinct_append:
  "py_distinct (xs @ ys) =
     (py_distinct xs \<and> py_distinct ys \<and> (\<forall>x \<in> set xs. \<not> py_member x ys))"
  by (induction xs) auto

lemma py_member_sym_diff:
  assumes "list_all hashable a" "list_all hashable b"
  shows "py_member x (set_sym_diff a b) = (py_member x a \<noteq> py_member x b)"
proof -
  have 1: "py_member x (filter (\<lambda>u. \<not> py_member u b) a) = (py_member x a \<and> \<not> py_member x b)"
    using assms(1) py_member_cong [of x _ b]
    by (auto simp: py_member_iff list_all_iff)
  have 2: "py_member x (filter (\<lambda>u. \<not> py_member u a) b) = (py_member x b \<and> \<not> py_member x a)"
    using assms(2) py_member_cong [of x _ a]
    by (auto simp: py_member_iff list_all_iff)
  show ?thesis
    unfolding set_sym_diff_def py_member_append 1 2 by blast
qed

lemma py_distinct_sym_diff:
  assumes "list_all hashable a" "list_all hashable b" "py_distinct a" "py_distinct b"
  shows "py_distinct (set_sym_diff a b)"
proof -
  have "\<not> py_member u (filter (\<lambda>v. \<not> py_member v a) b)"
    if "u \<in> set a" for u
  proof
    assume "py_member u (filter (\<lambda>v. \<not> py_member v a) b)"
    then obtain v where v: "v \<in> set b" "\<not> py_member v a" "py_eq u v"
      by (auto simp: py_member_iff)
    have "hashable v" using v(1) assms(2) by (simp add: list_all_iff)
    then have "py_eq v u" using v(3) py_eq_sym by blast
    then have "py_member v a" using that by (auto simp: py_member_iff)
    with v(2) show False by simp
  qed
  then show ?thesis
    unfolding set_sym_diff_def py_distinct_append
    using assms(3,4) by (auto simp: py_distinct_filter)
qed

lemma list_sym_diff_member:
  assumes "list_all hashable as" "list_all hashable bs"
  shows "py_member x (list_sym_diff as bs) = (py_member x as \<noteq> py_member x bs)"
  using assms
  by (simp add: list_sym_diff_def py_member_sym_diff hashable_foldl_set_add
      py_member_foldl_set_add)

lemma list_sym_diff_distinct:
  assumes "list_all hashable as" "list_all hashable bs"
  shows "py_distinct (list_sym_diff as bs)"
  using assms
  by (simp add: list_sym_diff_def py_distinct_sym_diff hashable_foldl_set_add
      py_distinct_foldl_set_add)

lemma py_set_list: "list_all hashable xs \<Longrightarrow> py_set (PList xs) = Inr (foldl set_add [] xs)"
  by (simp add: py_set_def)

lemma diff_entry_fields_list:
  "diff_entry_fields order (attr, PList bs, PList as) =
     [(py_upper attr @ (if length bs < length as then '' added'' else '' removed''),
       PStr (join '','' (map py_str (order (list_sym_diff as bs)))))]"
  by (simp add: diff_entry_fields_def)

lemma diff_entry_fields_other:
  "\<forall>bs. before \<noteq> PList bs \<Longrightarrow>
   diff_entry_fields order (attr, before, after) =
     [(py_upper attr @ '' (before)'', before), (py_upper attr @ '' (after)'', after)]"
  by (cases before) (simp_all add: diff_entry_fields_def)

lemma add_diff_fields_spec:
  assumes "\<forall>(attr, before, after) \<in> set diff.
             \<forall>bs. before = PList bs \<longrightarrow>
               (\<exists>as. after = PList as \<and> list_all hashable as \<and> list_all hashable bs)"
  shows "add_diff_fields order e diff =
     Inr (e\<lparr>embed_fields := embed_fields e @ concat (map (diff_entry_fields order) diff)\<rparr>)"
  using assms
proof (induction diff arbitrary: e)
  case Nil
  then show ?case by simp
next
  case (Cons entry rest)
  obtain attr before after where entry: "entry = (attr, before, after)"
    by (cases entry) auto
  have rest: "\<And>e'. add_diff_fields order e' rest =
     Inr (e'\<lparr>embed_fields := embed_fields e' @ concat (map (diff_entry_fields order) rest)\<rparr>)"
    using Cons by simp
  show ?case
  proof (cases "\<exists>bs. before = PList bs")
    case True
    then obtain bs where bs: "before = PList bs" by blast
    then obtain as where as: "after = PList as" "list_all hashable as" "list_all hashable bs"
      using Cons.prems entry by auto
    show ?thesis
      unfolding entry bs as(1)
      by (simp add: Let_def and_then_def py_set_list as rest add_field_def
          diff_entry_fields_list list_sym_diff_def)
  next
    case False
    then show ?thesis
      unfolding entry
      by (cases before) (simp_all add: Let_def rest add_field_def diff_entry_fields_other)
  qed
qed


text \<open>
  C5: on a diff whose list entries have a list as after-value too, both of hashable
  members, \<open>add_diff_fields\<close> appends, entry by entry in the diff's order, the fields
  that the specification gives: for a list entry the one field \<open><ATTR> added\<close> (the
  after-list is the longer) or \<open><ATTR> removed\<close> (otherwise), whose value joins with
  commas the string forms of the symmetric difference in the interpreter's iteration
  order; for any other entry the fields \<open><ATTR> (before)\<close> and \<open><ATTR> (after)\<close>
  with the values as they are. The symmetric difference holds, once each, the values
  that are members of exactly one of the two lists.
\<close>

theorem add_diff_fields_follows_spec:
  assumes "\<forall>(attr, before, after) \<in> set diff.
             \<forall>bs. before = PList bs \<longrightarrow>
               (\<exists>as. after = PList as \<and> list_all hashable as \<and> list_all hashable bs)"
    and "\<forall>xs. mset (order xs) = mset xs"
  shows "add_diff_fields order e diff =
           Inr (e\<lparr>embed_fields :=
                    embed_fields e @ concat (map (diff_entry_fields order) diff)\<rparr>) \<and>
         (\<forall>as bs. list_all hashable as \<and> list_all hashable bs \<longrightarrow>
            mset (order (list_sym_diff as bs)) = mset (list_sym_diff as bs) \<and>
            py_distinct (list_sym_diff as bs) \<and>
            (\<forall>x. py_member x (list_sym_diff as bs) = (py_member x as \<noteq> py_member x bs)))"
  using add_diff_fields_spec [OF assms(1), of order e] assms(2)
    list_sym_diff_distinct list_sym_diff_member
  by simp

theorem add_diff_fields_follows_spec_witness:
  "add_diff_fields (\<lambda>xs. xs) (EventEmbed (PStr ''Guild with ID 5 updated''))
     [(''roles'', PList [PInt 1, PInt 2], PList [PInt 1, PInt 2, PInt 3]),
      (''emojis'', PList [PInt 1, PInt 2, PInt 3], PList [PInt 1, PInt 2]),
      (''name'', PStr ''A'', PStr ''B'')] =
   Inr ((EventEmbed (PStr ''Guild with ID 5 updated''))
          \<lparr>embed_fields :=
             [(''ROLES added'', PStr ''3''), (''EMOJIS removed'', PStr ''3''),
              (''NAME (before)'', PStr ''A''), (''NAME (after)'', PStr ''B'')]\<rparr>)"
  using add_diff_fields_follows_spec
    [of "[(''roles'', PList [PInt 1, PInt 2], PList [PInt 1, PInt 2, PInt 3]),
          (''emojis'', PList [PInt 1, PInt 2, PInt 3], PList [PInt 1, PInt 2]),
          (''name'', PStr ''A'', PStr ''B'')]"
        "\<lambda>xs. xs" "EventEmbed (PStr ''Guild with ID 5 updated'')"]
  by (simp add: diff_entry_fields_def list_sym_diff_def set_sym_diff_def set_add_def
      py_member_def py_str_def str_int_def py_upper_def upper_char_def EventEmbed_def
      LogEmbed_def)

section \<open>Rendering events\<close>

lemma render_default_event_ok:
  "render_default_event args kwargs =
     Inr (PStr (''New event: '' @ py_str (kw_get kwargs ''event_type'' PNone)),
          Some (EventEmbed (PStr (''New event: '' @ py_str (kw_get kwargs ''event_type'' PNone)))))"
  by (simp add: render_default_event_def Let_def generate_log_embed_event and_then_def)

lemma render_default_event_typed:
  "render_default_event args (kwargs(''event_type'' \<mapsto> event_type)) =
     Inr (PStr (''New event: '' @ py_str event_type),
          Some (EventEmbed (PStr (''New event: '' @ py_str event_type))))"
  by (simp add: render_default_event_ok kw_get_def)

lemma generate_event_data_cases:
  "generate_event_data self env event_type args kwargs w =
     (case render_func_of self env (''render_'' @ py_str event_type @ ''_event'') args
             (kwargs(''event_type'' \<mapsto> event_type)) of
        Inr r \<Rightarrow> (Inr r, w)
      | Inl exc \<Rightarrow>
          (Inr (PStr (''New event: '' @ py_str event_type),
                Some (EventEmbed (PStr (''New event: '' @ py_str event_type)))),
           console_log console_error
             (Fmt ''Could not render event data: '' exc '' (using default render)'') w))"
  by (simp add: generate_event_data_def Let_def render_default_event_typed split: sum.splits)

text \<open>
  C6: \<open>generate_event_data\<close> returns a rendered event on every event type and every
  payload, never an exception. When the renderer selected for the event type raises,
  the error is logged to the console and the result is the default renderer's, with
  the message \<open>New event: <event_type>\<close>; when no renderer is registered under
  \<open>render_<event_type>_event\<close>, the default renderer's result is returned directly.
\<close>

theorem generate_event_data_never_raises:
  "(\<exists>r. fst (generate_event_data self env event_type args kwargs w) = Inr r) \<and>
   (\<forall>exc. render_func_of self env (''render_'' @ py_str event_type @ ''_event'') args
            (kwargs(''event_type'' \<mapsto> event_type)) = Inl exc \<longrightarrow>
      generate_event_data self env event_type args kwargs w =
        (Inr (PStr (''New event: '' @ py_str event_type),
              Some (EventEmbed (PStr (''New event: '' @ py_str event_type)))),
         console_log console_error
           (Fmt ''Could not render event data: '' exc '' (using default render)'') w)) \<and>
   (''render_'' @ py_str event_type @ ''_event'' \<noteq> ''render_reaction_clear_event'' \<and>
    other_renderers self (''render_'' @ py_str event_type @ ''_event'') = None \<longrightarrow>
      generate_event_data self env event_type args kwargs w =
        (Inr (PStr (''New event: '' @ py_str event_type),
              Some (EventEmbed (PStr (''New event: '' @ py_str event_type)))),
         w))"
proof (intro conjI allI impI)
  show "\<exists>r. fst (generate_event_data self env event_type args kwargs w) = Inr r"
    by (simp add: generate_event_data_cases split: sum.splits)
next
  fix exc
  assume "render_func_of self env (''render_'' @ py_str event_type @ ''_event'') args
            (kwargs(''event_type'' \<mapsto> event_type)) = Inl exc"
  then show "generate_event_data self env event_type args kwargs w =
        (Inr (PStr (''New event: '' @ py_str event_type),
              Some (EventEmbed (PStr (''New event: '' @ py_str event_type)))),
         console_log console_error
           (Fmt ''Could not render event data: '' exc '' (using default render)'') w)"
    by (simp add: generate_event_data_cases)
next
  assume unregistered:
    "''render_'' @ py_str event_type @ ''_event'' \<noteq> ''render_reaction_clear_event'' \<and>
     other_renderers self (''render_'' @ py_str event_type @ ''_event'') = None"
  then have "render_func_of self env (''render_'' @ py_str event_type @ ''_event'') =
      render_default_event"
    by (simp add: render_func_of_def)
  then show "generate_event_data self env event_type args kwargs w =
        (Inr (PStr (''New event: '' @ py_str event_type),
              Some (EventEmbed (PStr (''New event: '' @ py_str event_type)))),
         w)"
    by (simp add: generate_event_data_cases render_default_event_typed)
qed

theorem generate_event_data_never_raises_witness:
  "generate_event_data
     ((sample_logger PNone)\<lparr>other_renderers :=
        (\<lambda>name. if name = ''render_guild_join_event''
                 then Some (\<lambda>args kwargs. Inl (Exn AttributeError None)) else None)\<rparr>)
     (sample_env owner_user) (PStr ''guild_join'') [] Map.empty fresh_world =
     (Inr (PStr ''New event: guild_join'', Some (EventEmbed (PStr ''New event: guild_join''))),
      console_log console_error
        (Fmt ''Could not render event data: '' (Exn AttributeError None)
           '' (using default render)'') fresh_world) \<and>
   generate_event_data (sample_logger PNone) (sample_env owner_user) (PStr ''typing'') []
       Map.empty fresh_world =
     (Inr (PStr ''New event: typing'', Some (EventEmbed (PStr ''New event: typing''))),
      fresh_world)"
  using generate_event_data_never_raises
    [of "(sample_logger PNone)\<lparr>other_renderers :=
           (\<lambda>name. if name = ''render_guild_join_event''
                    then Some (\<lambda>args kwargs. Inl (Exn AttributeError None)) else None)\<rparr>"
        "sample_env owner_user" "PStr ''guild_join''" "[]" Map.empty fresh_world]
    generate_event_data_never_raises
    [of "sample_logger PNone" "sample_env owner_user" "PStr ''typing''" "[]" Map.empty
        fresh_world]
  by (simp add: sample_logger_def py_str_def render_func_of_def)

lemma reaction_clear_raises:
  "\<exists>exc. render_reaction_clear_event env args kwargs = Inl exc"
  by (auto simp: render_reaction_clear_event_def Let_def and_then_def split: sum.splits)

text \<open>
  C10: on every payload the renderer of \<open>reaction_clear\<close> raises, so
  \<open>generate_event_data\<close> logs the error and returns the default renderer's result:
  the summary of a \<open>reaction_clear\<close> event is always \<open>New event: reaction_clear\<close>.
  On a payload with a message object and a list of reactions, the error is the
  \<open>AttributeError\<close> of reading \<open>content\<close> off the summary string (the witness).
\<close>

theorem reaction_clear_always_default:
  "\<exists>exc. render_reaction_clear_event env args (kwargs(''event_type'' \<mapsto> PStr ''reaction_clear''))
           = Inl exc \<and>
     generate_event_data self env (PStr ''reaction_clear'') args kwargs w =
       (Inr (PStr ''New event: reaction_clear'',
             Some (EventEmbed (PStr ''New event: reaction_clear''))),
        console_log console_error
          (Fmt ''Could not render event data: '' exc '' (using default render)'') w)"
proof -
  obtain exc where exc:
    "render_reaction_clear_event env args (kwargs(''event_type'' \<mapsto> PStr ''reaction_clear''))
       = Inl exc"
    using reaction_clear_raises by blast
  have sel: "render_func_of self env (''render_'' @ py_str (PStr ''reaction_clear'') @ ''_event'')
      = render_reaction_clear_event env"
    by (simp add: render_func_of_def py_str_def)
  have "generate_event_data self env (PStr ''reaction_clear'') args kwargs w =
       (Inr (PStr ''New event: reaction_clear'',
             Some (EventEmbed (PStr ''New event: reaction_clear''))),
        console_log console_error
          (Fmt ''Could not render event data: '' exc '' (using default render)'') w)"
    unfolding generate_event_data_cases sel exc by (simp add: py_str_def)
  with exc show ?thesis by blast
qed

theorem reaction_clear_always_default_witness:
  "render_reaction_clear_event (sample_env owner_user) []
     [''message'' \<mapsto>
        PObj 42 ''<Message id=42>'' ''<Message id=42>''
          [(''id'', PInt 42), (''content'', PStr ''hello''), (''author'', owner_user),
           (''channel'', PObj 9 ''general'' ''<TextChannel id=9>'' [(''name'', PStr ''general'')])],
      ''reactions'' \<mapsto>
        PList [PObj 1 ''r1'' ''<Reaction 1>'' [(''emoji'', PStr ''ok'')],
               PObj 2 ''r2'' ''<Reaction 2>'' [(''emoji'', PStr ''ok'')]],
      ''event_type'' \<mapsto> PStr ''reaction_clear'']
     = Inl (Exn AttributeError None) \<and>
   fst (generate_event_data (sample_logger PNone) (sample_env owner_user)
          (PStr ''reaction_clear'') []
          [''message'' \<mapsto>
             PObj 42 ''<Message id=42>'' ''<Message id=42>''
               [(''id'', PInt 42), (''content'', PStr ''hello''), (''author'', owner_user),
                (''channel'',
                 PObj 9 ''general'' ''<TextChannel id=9>'' [(''name'', PStr ''general'')])],
           ''reactions'' \<mapsto>
             PList [PObj 1 ''r1'' ''<Reaction 1>'' [(''emoji'', PStr ''ok'')],
                    PObj 2 ''r2'' ''<Reaction 2>'' [(''emoji'', PStr ''ok'')]]]
          fresh_world)
     = Inr (PStr ''New event: reaction_clear'',
            Some (EventEmbed (PStr ''New event: reaction_clear'')))"
  using reaction_clear_always_default
    [of "sample_env owner_user" "[]"
        "[''message'' \<mapsto>
             PObj 42 ''<Message id=42>'' ''<Message id=42>''
               [(''id'', PInt 42), (''content'', PStr ''hello''), (''author'', owner_user),
                (''channel'',
                 PObj 9 ''general'' ''<TextChannel id=9>'' [(''name'', PStr ''general'')])],
           ''reactions'' \<mapsto>
             PList [PObj 1 ''r1'' ''<Reaction 1>'' [(''emoji'', PStr ''ok'')],
                    PObj 2 ''r2'' ''<Reaction 2>'' [(''emoji'', PStr ''ok'')]]]"
        "sample_logger PNone" fresh_world]
  by (auto simp: render_reaction_clear_event_def Let_def and_then_def kw_get_def
      get_server_text_def getattr_default_def sample_env_def set_add_def py_member_def
      generate_log_embed_event split: sum.splits)

section \<open>Delivery: target resolution and the sender\<close>

lemma generic_no_target:
  assumes "\<not> is_console_only self kwargs False"
    and "lookup_channel env (kw_get kwargs ''channel'' PNone) = Inr channel"
    and "\<not> truthy channel" and "\<not> truthy (get_owner env)"
  shows "handle_generic_log self env message lvl console args kwargs w =
     (Inr (), console_log console_warning
        (Text (PStr (''Could not determine Discord target to send '' @ lvl @ '' log'')))
        (console_log console (Text message) w))"
  using assms by (simp add: handle_generic_log_def Let_def or_raise_def)

text \<open>
  C2 does not hold of the code. An error log with \<open>critical=True\<close>, no channel and no
  owner: \<open>handle_error_log\<close> reads \<open>target.mention\<close> off the \<open>None\<close> that
  \<open>get_owner\<close> returned, before it tests \<open>if not target\<close>. The \<open>AttributeError\<close>
  reaches the caller of \<open>error\<close> and no warning is logged. The same record without
  \<open>critical\<close> gets the warning and returns, as the claim says.
\<close>

theorem error_log_critical_without_target_raises:
  "error (sample_logger PNone) (sample_env PNone) (PStr ''boom'') []
     [''exception'' \<mapsto> failure, ''critical'' \<mapsto> PBool True] fresh_world =
     (Inl (Exn AttributeError None),
      console_log console_error (Text (PStr ''boom'')) fresh_world) \<and>
   error (sample_logger PNone) (sample_env PNone) (PStr ''boom'') []
     [''exception'' \<mapsto> failure] fresh_world =
     (Inr (),
      console_log console_warning
        (Text (PStr ''Could not determine Discord target to send ERROR log''))
        (console_log console_error (Text (PStr ''boom'')) fresh_world))"
  by (simp add: error_def handle_error_log_def Let_def is_console_only_def sample_logger_def
      kw_get_def DEFAULT_ERROR_LOG_SEND_def failure_def or_raise_def generate_log_embed_error
      lookup_channel_def sample_env_def mention_of_def and_then_def)

lemma generic_send_failure:
  assumes "\<not> is_console_only self kwargs False"
    and "lookup_channel env (kw_get kwargs ''channel'' PNone) = Inr channel"
    and "target = (if truthy channel then channel else get_owner env)"
    and "truthy target"
    and "generate_log_embed message lvl = Inr e0"
    and "target_send env target
           \<lparr>out_content = PNone,
            out_embed = Some (e0\<lparr>timestamp := Some (kw_get kwargs ''time'' (utcnow env))\<rparr>)\<rparr>
         = Some exc"
  shows "fst (handle_generic_log self env message lvl console args kwargs w) =
     (if exn_cls exc = Forbidden then Inr () else Inl exc)"
  using assms
  by (simp add: handle_generic_log_def Let_def or_raise_def except_forbidden_send_to)

lemma event_send_failure:
  assumes "\<not> is_console_only self kwargs False"
    and "fst (generate_event_data self env event_type args kwargs w) = Inr (message, Some e0)"
    and "truthy message"
    and "lookup_channel env (kw_get kwargs ''channel'' PNone) = Inr channel"
    and "target = (if truthy channel then channel else get_owner env)"
    and "truthy target"
    and "target_send env target
           \<lparr>out_content = PNone,
            out_embed = Some (e0\<lparr>timestamp := Some (kw_get kwargs ''time'' (utcnow env))\<rparr>)\<rparr>
         = Some exc"
  shows "fst (handle_event_log self env event_type args kwargs w) =
     (if exn_cls exc = Forbidden then Inr () else Inl exc)"
  using assms
  by (simp add: handle_event_log_def Let_def or_raise_def deliver_event_def
      except_forbidden_send_to)

lemma error_send_failure:
  assumes "\<not> is_console_only self kwargs True"
    and "py_getattr (kw_get kwargs ''exception'' PNone) ''__traceback__'' = Inr tb"
    and "lookup_channel env (kw_get kwargs ''channel'' PNone) = Inr channel"
    and "target = (if truthy channel then channel else get_owner env)"
    and "truthy target"
    and "(if truthy channel
          then mention_of channel [''guild'', ''owner''] (kw_get kwargs ''critical'' PNone)
          else mention_of target [] (kw_get kwargs ''critical'' PNone)) = Inr content"
    and "target_send env target
           \<lparr>out_content = content,
            out_embed = Some ((ErrorEmbed message)
                         \<lparr>timestamp := Some (kw_get kwargs ''time'' (utcnow env))\<rparr>)\<rparr>
           = Some exc \<or>
         (target_send env target
            \<lparr>out_content = content,
             out_embed = Some ((ErrorEmbed message)
                          \<lparr>timestamp := Some (kw_get kwargs ''time'' (utcnow env))\<rparr>)\<rparr>
            = None \<and>
          target_send env target
            \<lparr>out_content =
               PStr (''```py'' @ [CHR 0x0A] @
                     take 1992 (format_exception env (kw_get kwargs ''exception'' PNone))
                     @ ''```''),
             out_embed = None\<rparr>
            = Some exc)"
  shows "fst (handle_error_log self env message args kwargs w) =
     (if exn_cls exc = Forbidden then Inr () else Inl exc)"
  using assms
  by (auto simp add: handle_error_log_def Let_def or_raise_def generate_log_embed_error
      send_error_log_def except_forbidden_def send_to_def)

lemma direct_calls:
  assumes "\<not> truthy (queue_wait self)"
  shows "error self env message args kwargs w = handle_error_log self env message args kwargs w"
    and "event self env event_type args kwargs w =
           handle_event_log self env event_type args kwargs w"
    and "kwargs ''level_'' = None \<Longrightarrow> kwargs ''console'' = None \<Longrightarrow>
         info self env message args kwargs w =
           handle_generic_log self env message ''info'' console_info args kwargs w"
    and "kwargs ''level_'' = None \<Longrightarrow> kwargs ''console'' = None \<Longrightarrow>
         warning self env message args kwargs w =
           handle_generic_log self env message ''warning'' console_warning args kwargs w"
    and "kwargs ''level_'' = None \<Longrightarrow> kwargs ''console'' = None \<Longrightarrow> debug_mode self \<Longrightarrow>
         debug self env message args kwargs w =
           handle_generic_log self env message ''debug'' console_debug args kwargs w"
  using assms
  by (simp_all add: error_def event_def info_def warning_def debug_def
      call_handle_generic_log_def)

text \<open>
  C7: in the non-queued path (the public method runs the handler itself and returns
  what it returns), once a delivery target is resolved, a failure of the send
  primitive of class \<open>Forbidden\<close> is discarded and the call returns normally, while a
  failure of any other class is what the call raises. For an error log this holds of
  the first delivery (the embed) and of the second (the traceback).
\<close>

theorem forbidden_discarded_other_failures_propagate:
  assumes "\<not> truthy (queue_wait self)"
    and "lookup_channel env (kw_get kwargs ''channel'' PNone) = Inr channel"
    and "target = (if truthy channel then channel else get_owner env)"
    and "truthy target"
    and "kwargs ''level_'' = None" and "kwargs ''console'' = None"
  shows
    "(\<not> is_console_only self kwargs False \<and> generate_log_embed message ''info'' = Inr e0 \<and>
      target_send env target
        \<lparr>out_content = PNone,
         out_embed = Some (e0\<lparr>timestamp := Some (kw_get kwargs ''time'' (utcnow env))\<rparr>)\<rparr>
        = Some exc \<longrightarrow>
      fst (info self env message args kwargs w) =
        (if exn_cls exc = Forbidden then Inr () else Inl exc)) \<and>
     (\<not> is_console_only self kwargs False \<and> generate_log_embed message ''warning'' = Inr e0 \<and>
      target_send env target
        \<lparr>out_content = PNone,
         out_embed = Some (e0\<lparr>timestamp := Some (kw_get kwargs ''time'' (utcnow env))\<rparr>)\<rparr>
        = Some exc \<longrightarrow>
      fst (warning self env message args kwargs w) =
        (if exn_cls exc = Forbidden then Inr () else Inl exc)) \<and>
     (debug_mode self \<and>
      \<not> is_console_only self kwargs False \<and> generate_log_embed message ''debug'' = Inr e0 \<and>
      target_send env target
        \<lparr>out_content = PNone,
         out_embed = Some (e0\<lparr>timestamp := Some (kw_get kwargs ''time'' (utcnow env))\<rparr>)\<rparr>
        = Some exc \<longrightarrow>
      fst (debug self env message args kwargs w) =
        (if exn_cls exc = Forbidden then Inr () else Inl exc)) \<and>
     (\<not> is_console_only self kwargs False \<and>
      fst (generate_event_data self env event_type args kwargs w) = Inr (summary, Some e0) \<and>
      truthy summary \<and>
      target_send env target
        \<lparr>out_content = PNone,
         out_embed = Some (e0\<lparr>timestamp := Some (kw_get kwargs ''time'' (utcnow env))\<rparr>)\<rparr>
        = Some exc \<longrightarrow>
      fst (event self env event_type args kwargs w) =
        (if exn_cls exc = Forbidden then Inr () else Inl exc)) \<and>
     (\<not> is_console_only self kwargs True \<and>
      py_getattr (kw_get kwargs ''exception'' PNone) ''__traceback__'' = Inr tb \<and>
      (if truthy channel
       then mention_of channel [''guild'', ''owner''] (kw_get kwargs ''critical'' PNone)
       else mention_of target [] (kw_get kwargs ''critical'' PNone)) = Inr content \<and>
      (target_send env target
         \<lparr>out_content = content,
          out_embed = Some ((ErrorEmbed message)
                       \<lparr>timestamp := Some (kw_get kwargs ''time'' (utcnow env))\<rparr>)\<rparr>
         = Some exc \<or>
       (target_send env target
          \<lparr>out_content = content,
           out_embed = Some ((ErrorEmbed message)
                        \<lparr>timestamp := Some (kw_get kwargs ''time'' (utcnow env))\<rparr>)\<rparr>
          = None \<and>
        target_send env target
          \<lparr>out_content =
             PStr (''```py'' @ [CHR 0x0A] @
                   take 1992 (format_exception env (kw_get kwargs ''exception'' PNone))
                   @ ''```''),
           out_embed = None\<rparr>
          = Some exc)) \<longrightarrow>
      fst (error self env message args kwargs w) =
        (if exn_cls exc = Forbidden then Inr () else Inl exc))"
proof (intro conjI impI)
  assume "\<not> is_console_only self kwargs False \<and> generate_log_embed message ''info'' = Inr e0 \<and>
      target_send env target
        \<lparr>out_content = PNone,
         out_embed = Some (e0\<lparr>timestamp := Some (kw_get kwargs ''time'' (utcnow env))\<rparr>)\<rparr>
        = Some exc"
  then show "fst (info self env message args kwargs w) =
        (if exn_cls exc = Forbidden then Inr () else Inl exc)"
    using generic_send_failure [OF _ assms(2-4), of self message "''info''" e0 exc
        console_info args w]
      direct_calls(3) [OF assms(1) assms(5) assms(6)]
    by simp
next
  assume "\<not> is_console_only self kwargs False \<and> generate_log_embed message ''warning'' = Inr e0 \<and>
      target_send env target
        \<lparr>out_content = PNone,
         out_embed = Some (e0\<lparr>timestamp := Some (kw_get kwargs ''time'' (utcnow env))\<rparr>)\<rparr>
        = Some exc"
  then show "fst (warning self env message args kwargs w) =
        (if exn_cls exc = Forbidden then Inr () else Inl exc)"
    using generic_send_failure [OF _ assms(2-4), of self message "''warning''" e0 exc
        console_warning args w]
      direct_calls(4) [OF assms(1) assms(5) assms(6)]
    by simp
next
  assume "debug_mode self \<and>
      \<not> is_console_only self kwargs False \<and> generate_log_embed message ''debug'' = Inr e0 \<and>
      target_send env target
        \<lparr>out_content = PNone,
         out_embed = Some (e0\<lparr>timestamp := Some (kw_get kwargs ''time'' (utcnow env))\<rparr>)\<rparr>
        = Some exc"
  then show "fst (debug self env message args kwargs w) =
        (if exn_cls exc = Forbidden then Inr () else Inl exc)"
    using generic_send_failure [OF _ assms(2-4), of self message "''debug''" e0 exc
        console_debug args w]
      direct_calls(5) [OF assms(1) assms(5) assms(6)]
    by simp
next
  assume "\<not> is_console_only self kwargs False \<and>
      fst (generate_event_data self env event_type args kwargs w) = Inr (summary, Some e0) \<and>
      truthy summary \<and>
      target_send env target
        \<lparr>out_content = PNone,
         out_embed = Some (e0\<lparr>timestamp := Some (kw_get kwargs ''time'' (utcnow env))\<rparr>)\<rparr>
        = Some exc"
  then show "fst (event self env event_type args kwargs w) =
        (if exn_cls exc = Forbidden then Inr () else Inl exc)"
    using event_send_failure [of self kwargs env event_type args w summary e0 channel target exc]
      assms(2-4) direct_calls(2) [OF assms(1)]
    by simp
next
  assume "\<not> is_console_only self kwargs True \<and>
      py_getattr (kw_get kwargs ''exception'' PNone) ''__traceback__'' = Inr tb \<and>
      (if truthy channel
       then mention_of channel [''guild'', ''owner''] (kw_get kwargs ''critical'' PNone)
       else mention_of target [] (kw_get kwargs ''critical'' PNone)) = Inr content \<and>
      (target_send env target
         \<lparr>out_content = content,
          out_embed = Some ((ErrorEmbed message)
                       \<lparr>timestamp := Some (kw_get kwargs ''time'' (utcnow env))\<rparr>)\<rparr>
         = Some exc \<or>
       (target_send env target
          \<lparr>out_content = content,
           out_embed = Some ((ErrorEmbed message)
                        \<lparr>timestamp := Some (kw_get kwargs ''time'' (utcnow env))\<rparr>)\<rparr>
          = None \<and>
        target_send env target
          \<lparr>out_content =
             PStr (''```py'' @ [CHR 0x0A] @
                   take 1992 (format_exception env (kw_get kwargs ''exception'' PNone))
                   @ ''```''),
           out_embed = None\<rparr>
          = Some exc))"
  then show "fst (error self env message args kwargs w) =
        (if exn_cls exc = Forbidden then Inr () else Inl exc)"
    using error_send_failure [of self kwargs tb env channel target content message exc args w]
      assms(2-4) direct_calls(1) [OF assms(1)]
    by simp
qed

theorem forbidden_discarded_other_failures_propagate_witness:
  "fst (info (sample_logger PNone)
          ((sample_env owner_user)\<lparr>target_send := (\<lambda>_ _. Some (Exn Forbidden None))\<rparr>)
          (PStr ''hi'') [] [''send'' \<mapsto> PBool True] fresh_world) = Inr () \<and>
   fst (info (sample_logger PNone)
          ((sample_env owner_user)\<lparr>target_send := (\<lambda>_ _. Some (Exn HTTPException None))\<rparr>)
          (PStr ''hi'') [] [''send'' \<mapsto> PBool True] fresh_world) =
     Inl (Exn HTTPException None) \<and>
   fst (error (sample_logger PNone)
          ((sample_env owner_user)\<lparr>target_send := (\<lambda>_ _. Some (Exn Forbidden None))\<rparr>)
          (PStr ''boom'') [] [''exception'' \<mapsto> failure, ''critical'' \<mapsto> PBool True]
          fresh_world) = Inr () \<and>
   fst (error (sample_logger PNone)
          ((sample_env owner_user)\<lparr>target_send :=
             (\<lambda>_ msg. if out_embed msg = None then Some (Exn HTTPException None) else None)\<rparr>)
          (PStr ''boom'') [] [''exception'' \<mapsto> failure, ''critical'' \<mapsto> PBool True]
          fresh_world) = Inl (Exn HTTPException None)"
  using forbidden_discarded_other_failures_propagate
    [where self = "sample_logger PNone"
       and env = "(sample_env owner_user)\<lparr>target_send := (\<lambda>_ _. Some (Exn Forbidden None))\<rparr>"
       and kwargs = "[''send'' \<mapsto> PBool True]" and channel = PNone and target = owner_user
       and message = "PStr ''hi''" and ?e0.0 = "InfoEmbed (PStr ''hi'')"
       and exc = "Exn Forbidden None" and args = "[]" and w = fresh_world]
    forbidden_discarded_other_failures_propagate
    [where self = "sample_logger PNone"
       and env = "(sample_env owner_user)\<lparr>target_send := (\<lambda>_ _. Some (Exn HTTPException None))\<rparr>"
       and kwargs = "[''send'' \<mapsto> PBool True]" and channel = PNone and target = owner_user
       and message = "PStr ''hi''" and ?e0.0 = "InfoEmbed (PStr ''hi'')"
       and exc = "Exn HTTPException None" and args = "[]" and w = fresh_world]
    forbidden_discarded_other_failures_propagate
    [where self = "sample_logger PNone"
       and env = "(sample_env owner_user)\<lparr>target_send := (\<lambda>_ _. Some (Exn Forbidden None))\<rparr>"
       and kwargs = "[''exception'' \<mapsto> failure, ''critical'' \<mapsto> PBool True]"
       and channel = PNone and target = owner_user
       and message = "PStr ''boom''" and tb = PNone and content = "PStr ''<@1>''"
       and exc = "Exn Forbidden None" and args = "[]" and w = fresh_world]
    forbidden_discarded_other_failures_propagate
    [where self = "sample_logger PNone"
       and env = "(sample_env owner_user)\<lparr>target_send :=
             (\<lambda>_ msg. if out_embed msg = None then Some (Exn HTTPException None) else None)\<rparr>"
       and kwargs = "[''exception'' \<mapsto> failure, ''critical'' \<mapsto> PBool True]"
       and channel = PNone and target = owner_user
       and message = "PStr ''boom''" and tb = PNone and content = "PStr ''<@1>''"
       and exc = "Exn HTTPException None" and args = "[]" and w = fresh_world]
  by (simp add: sample_logger_def sample_env_def owner_user_def failure_def lookup_channel_def
      kw_get_def is_console_only_def DEFAULT_LOG_SEND_def DEFAULT_ERROR_LOG_SEND_def
      generate_log_embed_def py_lower_level_names mention_of_def and_then_def)

section \<open>The drain loop\<close>




section \<open>The timestamp of a delivered embed\<close>

lemma stamped_same: "deliveries_stamped v xs xs"
  by (simp add: deliveries_stamped_def)

lemma stamped_one:
  "timestamp e = Some v \<Longrightarrow>
   deliveries_stamped v xs (xs @ [(t, \<lparr>out_content = c, out_embed = Some e\<rparr>)])"
  by (simp add: deliveries_stamped_def)

lemma stamped_two:
  "timestamp e = Some v \<Longrightarrow>
   deliveries_stamped v xs
     (xs @ [(t, \<lparr>out_content = c, out_embed = Some e\<rparr>)] @
        [(t', \<lparr>out_content = c', out_embed = None\<rparr>)])"
  by (simp add: deliveries_stamped_def)

lemma generic_stamped:
  assumes "kwargs ''time'' = Some v"
  shows "deliveries_stamped v (sent w)
           (sent (snd (handle_generic_log self env message lvl console args kwargs w)))"
  using assms
  by (auto simp: handle_generic_log_def Let_def or_raise_def kw_get_def sent_send_to
      stamped_same stamped_one split: sum.splits option.splits)

lemma call_generic_stamped:
  assumes "kwargs ''time'' = Some v"
  shows "deliveries_stamped v (sent w)
           (sent (snd (call_handle_generic_log self env message lvl console args kwargs w)))"
  using assms generic_stamped [where kwargs = kwargs and v = v]
  by (simp add: call_handle_generic_log_def stamped_same)

lemma event_stamped:
  assumes "kwargs ''time'' = Some v"
  shows "deliveries_stamped v (sent w)
           (sent (snd (handle_event_log self env event_type args kwargs w)))"
proof -
  have s0: "sent (snd (generate_event_data self env event_type args kwargs w)) = sent w"
    by (rule generate_event_data_sent)
  show ?thesis
    using assms s0
    by (auto simp: handle_event_log_def Let_def or_raise_def kw_get_def sent_send_to
        deliver_event_def stamped_same stamped_one split: sum.splits option.splits prod.splits)
qed

lemma error_stamped:
  assumes "kwargs ''time'' = Some v"
  shows "deliveries_stamped v (sent w)
           (sent (snd (handle_error_log self env message args kwargs w)))"
  using assms stamped_two[of _ v "sent w"]
  by (auto simp: handle_error_log_def Let_def or_raise_def kw_get_def send_error_log_def
      send_to_def stamped_same stamped_one
      split: sum.splits option.splits prod.splits)

lemma enqueue_stamps:
  assumes "fst (enqueue env level log_message args kwargs w) = Inr ()"
  shows "\<exists>d. send_queue (snd (enqueue env level log_message args kwargs w)) =
              send_queue w @ [d] \<and>
             dl_kwargs d ''time'' = Some (utcnow env)"
  using assms
  by (auto simp: enqueue_def call_DelayedLog_def DelayedLog_def
      split: sum.splits option.splits if_splits)

lemma pass_stamped:
  assumes "send_queue w = d # pending" and "dl_kwargs d ''time'' = Some v"
  shows "\<exists>w2. log_from_queue_pass self env w = Some w2 \<and>
              deliveries_stamped v (sent w) (sent w2)"
proof -
  let ?w1 = "w\<lparr>send_queue := pending\<rparr>"
  have s1: "sent ?w1 = sent w" by simp
  obtain r where r: "handle_queue_log self env w = Some r"
    using assms(1) by (simp add: handle_queue_log_def Let_def)
  have "deliveries_stamped v (sent w) (sent (snd r))"
  proof -
    have g: "\<And>lvl console. deliveries_stamped v (sent w)
        (sent (snd (call_handle_generic_log self env (dl_message d) lvl console
                      (dl_args d) (dl_kwargs d) ?w1)))"
      using assms(2) call_generic_stamped [where kwargs = "dl_kwargs d" and v = v and w = ?w1]
      by simp
    have e: "deliveries_stamped v (sent w)
        (sent (snd (handle_error_log self env (dl_message d) (dl_args d) (dl_kwargs d) ?w1)))"
      using assms(2) error_stamped [where kwargs = "dl_kwargs d" and v = v and w = ?w1]
      by simp
    have "((dl_kwargs d)(''event_type'' := None)) ''time'' = Some v"
      using assms(2) by simp
    then have ev: "\<And>event_type. deliveries_stamped v (sent w)
        (sent (snd (handle_event_log self env event_type (dl_args d)
                      ((dl_kwargs d)(''event_type'' := None)) ?w1)))"
      using event_stamped [where kwargs = "(dl_kwargs d)(''event_type'' := None)" and v = v
          and w = ?w1]
      by simp
    show ?thesis
      using r assms(1) g e ev
      by (auto simp: handle_queue_log_def Let_def stamped_same split: if_splits)
  qed
  then show ?thesis
    using r by (cases r) (auto simp: log_from_queue_pass_def split: sum.splits)
qed

text \<open>
  C1, as the claim states it, fails in the queued path: \<open>DelayedLog\<close> assigns the
  clock's reading to \<open>kwargs["time"]\<close> whatever the bag held. A queued \<open>info\<close>
  called with \<open>time\<close> set to \<open>dawn\<close> while the clock reads \<open>noon\<close>, drained when
  it reads \<open>dusk\<close>, delivers an embed stamped \<open>noon\<close>, not \<open>dawn\<close>.
\<close>

theorem queued_time_option_overwritten:
  "log_from_queue_pass (sample_logger (PInt 5)) dusk_env
     (snd (info (sample_logger (PInt 5)) (sample_env owner_user) (PStr ''hi'') []
             dawn_bag fresh_world)) =
     Some \<lparr>console_lines = [(console_info, Text (PStr ''hi''))],
           sent = [(owner_user,
                    \<lparr>out_content = PNone,
                     out_embed = Some \<lparr>title = ''INFO'', description = PStr ''hi'',
                                       color = Green, timestamp = Some noon,
                                       embed_fields = []\<rparr>\<rparr>)],
           send_queue = []\<rparr> \<and>
   dawn_bag ''time'' = Some dawn \<and> noon \<noteq> dawn"
  by (simp add: info_def enqueue_def call_DelayedLog_def DelayedLog_def fresh_world_def
      log_from_queue_pass_def handle_queue_log_def call_handle_generic_log_def
      handle_generic_log_def Let_def is_console_only_def sample_logger_def kw_get_def
      console_log_def lookup_channel_def sample_env_def owner_user_def dusk_env_def
      dawn_bag_def generate_log_embed_def py_lower_level_names InfoEmbed_def LogEmbed_def
      py_upper_level_names except_forbidden_def send_to_def or_raise_def noon_def dawn_def)

text \<open>
  C1, amended. In the non-queued path, a call of \<open>info\<close>, \<open>debug\<close>, \<open>warning\<close>,
  \<open>error\<close> or \<open>event\<close> whose bag has \<open>time\<close> delivers only embeds that carry that
  value as timestamp. In the queued path, the record a call enqueues always has the
  clock's reading at the call under \<open>time\<close>, whatever the bag held, and draining a
  record delivers only embeds that carry the record's \<open>time\<close>.
\<close>

theorem time_option_direct_and_enqueue_stamp:
  "(\<not> truthy (queue_wait self) \<and> kwargs ''time'' = Some v \<longrightarrow>
      deliveries_stamped v (sent w) (sent (snd (info self env message args kwargs w))) \<and>
      deliveries_stamped v (sent w) (sent (snd (debug self env message args kwargs w))) \<and>
      deliveries_stamped v (sent w) (sent (snd (warning self env message args kwargs w))) \<and>
      deliveries_stamped v (sent w) (sent (snd (error self env message args kwargs w))) \<and>
      deliveries_stamped v (sent w) (sent (snd (event self env event_type args kwargs w)))) \<and>
   (truthy (queue_wait self) \<longrightarrow>
      (fst (info self env message args kwargs w) = Inr () \<longrightarrow>
         (\<exists>d. send_queue (snd (info self env message args kwargs w)) = send_queue w @ [d] \<and>
              dl_kwargs d ''time'' = Some (utcnow env))) \<and>
      (debug_mode self \<and> fst (debug self env message args kwargs w) = Inr () \<longrightarrow>
         (\<exists>d. send_queue (snd (debug self env message args kwargs w)) = send_queue w @ [d] \<and>
              dl_kwargs d ''time'' = Some (utcnow env))) \<and>
      (fst (warning self env message args kwargs w) = Inr () \<longrightarrow>
         (\<exists>d. send_queue (snd (warning self env message args kwargs w)) = send_queue w @ [d] \<and>
              dl_kwargs d ''time'' = Some (utcnow env))) \<and>
      (fst (error self env message args kwargs w) = Inr () \<longrightarrow>
         (\<exists>d. send_queue (snd (error self env message args kwargs w)) = send_queue w @ [d] \<and>
              dl_kwargs d ''time'' = Some (utcnow env))) \<and>
      (fst (event self env event_type args kwargs w) = Inr () \<longrightarrow>
         (\<exists>d. send_queue (snd (event self env event_type args kwargs w)) = send_queue w @ [d] \<and>
              dl_kwargs d ''time'' = Some (utcnow env)))) \<and>
   (send_queue w = d # pending \<and> dl_kwargs d ''time'' = Some v \<longrightarrow>
      (\<exists>w2. log_from_queue_pass self env w = Some w2 \<and>
            deliveries_stamped v (sent w) (sent w2)))"
proof (intro conjI impI)
  assume a: "\<not> truthy (queue_wait self) \<and> kwargs ''time'' = Some v"
  then have t: "kwargs ''time'' = Some v" and nq: "\<not> truthy (queue_wait self)"
    by simp_all
  show "deliveries_stamped v (sent w) (sent (snd (info self env message args kwargs w)))"
    using nq t call_generic_stamped [where kwargs = kwargs and v = v] by (simp add: info_def)
  show "deliveries_stamped v (sent w) (sent (snd (debug self env message args kwargs w)))"
    using nq t call_generic_stamped [where kwargs = kwargs and v = v]
    by (simp add: debug_def stamped_same)
  show "deliveries_stamped v (sent w) (sent (snd (warning self env message args kwargs w)))"
    using nq t call_generic_stamped [where kwargs = kwargs and v = v]
    by (simp add: warning_def)
  show "deliveries_stamped v (sent w) (sent (snd (error self env message args kwargs w)))"
    using nq t error_stamped [where kwargs = kwargs and v = v] by (simp add: error_def)
  show "deliveries_stamped v (sent w)
          (sent (snd (event self env event_type args kwargs w)))"
    using nq t event_stamped [where kwargs = kwargs and v = v] by (simp add: event_def)
next
  assume "truthy (queue_wait self)" "fst (info self env message args kwargs w) = Inr ()"
  then show "\<exists>d. send_queue (snd (info self env message args kwargs w)) = send_queue w @ [d] \<and>
              dl_kwargs d ''time'' = Some (utcnow env)"
    using enqueue_stamps [of env "''info''" "Some message" args kwargs w]
    by (simp add: info_def)
next
  assume "truthy (queue_wait self)"
    "debug_mode self \<and> fst (debug self env message args kwargs w) = Inr ()"
  then show "\<exists>d. send_queue (snd (debug self env message args kwargs w)) = send_queue w @ [d] \<and>
              dl_kwargs d ''time'' = Some (utcnow env)"
    using enqueue_stamps [of env "''debug''" "Some message" args kwargs w]
    by (auto simp add: debug_def)
next
  assume "truthy (queue_wait self)" "fst (warning self env message args kwargs w) = Inr ()"
  then show "\<exists>d. send_queue (snd (warning self env message args kwargs w)) = send_queue w @ [d] \<and>
              dl_kwargs d ''time'' = Some (utcnow env)"
    using enqueue_stamps [of env "''warning''" "Some message" args kwargs w]
    by (simp add: warning_def)
next
  assume "truthy (queue_wait self)" "fst (error self env message args kwargs w) = Inr ()"
  then show "\<exists>d. send_queue (snd (error self env message args kwargs w)) = send_queue w @ [d] \<and>
              dl_kwargs d ''time'' = Some (utcnow env)"
    using enqueue_stamps [of env "''error''" "Some message" args kwargs w]
    by (simp add: error_def)
next
  assume "truthy (queue_wait self)" "fst (event self env event_type args kwargs w) = Inr ()"
  then show "\<exists>d. send_queue (snd (event self env event_type args kwargs w)) = send_queue w @ [d] \<and>
              dl_kwargs d ''time'' = Some (utcnow env)"
    using enqueue_stamps [of env "''event''" None args "kwargs(''event_type'' \<mapsto> event_type)" w]
    by (simp add: event_def)
next
  assume "send_queue w = d # pending \<and> dl_kwargs d ''time'' = Some v"
  then show "\<exists>w2. log_from_queue_pass self env w = Some w2 \<and>
            deliveries_stamped v (sent w) (sent w2)"
    using pass_stamped [of w d pending v self env] by simp
qed

theorem time_option_direct_and_enqueue_stamp_witness:
  "sent (snd (info (sample_logger PNone) (sample_env owner_user) (PStr ''hi'') []
                [''time'' \<mapsto> dawn, ''send'' \<mapsto> PBool True] fresh_world)) =
     [(owner_user,
       \<lparr>out_content = PNone,
        out_embed = Some \<lparr>title = ''INFO'', description = PStr ''hi'', color = Green,
                          timestamp = Some dawn, embed_fields = []\<rparr>\<rparr>)] \<and>
   deliveries_stamped dawn (sent fresh_world)
     (sent (snd (info (sample_logger PNone) (sample_env owner_user) (PStr ''hi'') []
                   [''time'' \<mapsto> dawn, ''send'' \<mapsto> PBool True] fresh_world))) \<and>
   (\<exists>d. send_queue (snd (info (sample_logger (PInt 5)) (sample_env owner_user) (PStr ''hi'') []
                          [''time'' \<mapsto> dawn, ''send'' \<mapsto> PBool True] fresh_world)) =
          send_queue fresh_world @ [d] \<and>
        dl_kwargs d ''time'' = Some noon)"
  using time_option_direct_and_enqueue_stamp
    [where self = "sample_logger PNone" and env = "sample_env owner_user"
       and kwargs = "[''time'' \<mapsto> dawn, ''send'' \<mapsto> PBool True]" and v = dawn
       and message = "PStr ''hi''" and args = "[]" and w = fresh_world]
    time_option_direct_and_enqueue_stamp
    [where self = "sample_logger (PInt 5)" and env = "sample_env owner_user"
       and kwargs = "[''time'' \<mapsto> dawn, ''send'' \<mapsto> PBool True]" and v = dawn
       and message = "PStr ''hi''" and args = "[]" and w = fresh_world]
  by (simp add: info_def enqueue_def call_DelayedLog_def DelayedLog_def fresh_world_def
      call_handle_generic_log_def
      handle_generic_log_def Let_def is_console_only_def sample_logger_def kw_get_def
      console_log_def lookup_channel_def sample_env_def owner_user_def
      generate_log_embed_def py_lower_level_names InfoEmbed_def LogEmbed_def
      py_upper_level_names except_forbidden_def send_to_def or_raise_def
      deliveries_stamped_def)

end
